theory Spec2Isabelle
  imports Main
begin

section \<open>Helmet reservations, QR check-in and bulk schedule deletion\<close>

text \<open>
  A shallow embedding of the four route handlers of the helmet-reservation core:
  \<^item> the scan handler (\<open>POST\<close>, \<open>src/unnamed/part_000\<close>),
  \<^item> the creation handler (\<open>POST\<close>, \<open>helmet-reservations/create/route.ts\<close>),
  \<^item> the cancellation handler (\<open>DELETE\<close>, \<open>helmet-reservations/[reservationId]/route.ts\<close>),
  \<^item> the bulk schedule deletion handler (\<open>POST\<close>, \<open>src/unnamed/part_001\<close>).

  Each handler is a function from the request and the world before the request to the
  HTTP response and the world after it. A handler never raises: its outer
  \<open>try/catch\<close> turns every exception into a response with status 500, and that branch
  is part of the model.
\<close>

subsection \<open>Values\<close>

text \<open>
  What a \<open>throw\<close> carries: an \<open>Error\<close> object with its message, or some other
  (non-null) value, for which \<open>instanceof Error\<close> is false and \<open>.message\<close> is
  undefined.
\<close>

datatype exn = Error string | NonError

text \<open>The body given to \<open>NextResponse.json\<close>; a property whose value is undefined is left out.\<close>

datatype json =
    JNull
  | JBool bool
  | JNum int
  | JStr string
  | JArr "json list"
  | JObj "(string \<times> json) list"

text \<open>A response: the HTTP status (200 when the handler gives none) and the body.\<close>

type_synonym response = "nat \<times> json"

text \<open>
  A stored time field arrives in one of the shapes the handlers tell apart. A JavaScript
  \<open>Date\<close> holds a time value in milliseconds, or NaN (an Invalid Date): \<open>None\<close> here.
  \<^item> \<open>Missing\<close>: undefined or null;
  \<^item> \<open>WithToDate r\<close>: an object with a \<open>toDate\<close> function (the store's timestamp);
    \<open>r\<close> is what calling it does: throw, or return a \<open>Date\<close>;
  \<^item> \<open>NativeDate t\<close>: a \<open>Date\<close>;
  \<^item> \<open>WithSeconds s\<close>: another object with a \<open>seconds\<close> property; \<open>s\<close> is the
    number that \<open>seconds * 1000\<close> coerces \<open>seconds\<close> to (a number is itself, \<open>null\<close>
    is 0), \<open>None\<close> when that is NaN (\<open>undefined\<close>, a string that is no number);
  \<^item> \<open>RawString\<close>, \<open>RawNumber\<close>: a string or an (integral) number.
\<close>

datatype time_value =
    Missing
  | WithToDate "exn + int option"
  | NativeDate "int option"
  | WithSeconds "int option"
  | RawString string
  | RawNumber int

datatype res_status = booked | checked_in | cancelled

record user =
  u_id :: string
  u_firstName :: string
  u_lastName :: string
  u_email :: string

record schedule =
  s_id :: string
  s_courseId :: string
  s_title :: string
  s_startTime :: time_value
  s_endTime :: time_value
  s_location :: string
  s_createdBy :: string

record course =
  c_id :: string
  c_coachId :: string

record userQRCode =
  q_userId :: string
  q_qrCodeData :: string
  q_qrCodeImage :: string

record reservation =
  r_id :: string
  r_userId :: string
  r_userName :: string
  r_userEmail :: string
  r_courseId :: string
  r_courseName :: string
  r_scheduleId :: string
  r_coachId :: string
  r_coachName :: string
  r_reservationDate :: int
  r_classDate :: time_value
  r_classStartTime :: time_value
  r_classEndTime :: time_value
  r_location :: string
  r_status :: res_status
  r_qrCode :: string
  r_checkinTime :: "int option"

record notification =
  n_userId :: string
  n_title :: string
  n_message :: string
  n_type :: string
  n_read :: bool

record email =
  e_userEmail :: string
  e_userName :: string
  e_courseName :: string
  e_classDate :: string
  e_classTime :: string
  e_location :: string
  e_qrCodeImage :: string

text \<open>One \<open>console.error\<close> call: its text and the error object printed after it, if any.\<close>

datatype console_entry = ConsoleError string "exn option"

subsection \<open>The world and its collaborators\<close>

text \<open>
  The collections of the document store, the requests sent to the email endpoint and the
  error console. Informational \<open>console.log\<close> output is not recorded.
\<close>

record world =
  users :: "user list"
  courseSchedules :: "schedule list"
  courses :: "course list"
  helmetReservations :: "reservation list"
  userQRCodes :: "userQRCode list"
  notifications :: "notification list"
  sentEmails :: "email list"
  console :: "console_entry list"

text \<open>The calls a handler makes to its collaborators, each with the arguments that identify it.\<close>

datatype call =
    UserQR_getByQRCodeData string
  | UserQR_getByUserId string
  | UserQR_create string
  | QRCode_toDataURL string
  | Schedule_getById string
  | User_getById string
  | Helmet_getByUserAndSchedule string string
  | Helmet_getById string
  | Helmet_getByScheduleId string
  | Helmet_checkIn string
  | Helmet_cancel string
  | Helmet_create string string
  | Notification_create string
  | Fetch_sendEmail
  | Course_getById string
  | Course_getAll
  | GetDocs_courseSchedules
  | DeleteDoc_courseSchedules string

text \<open>
  What a request cannot decide itself:
  \<^item> \<open>faults\<close>: which collaborator calls throw during this request, and what;
  \<^item> \<open>now\<close>: the clock (\<open>Date.now()\<close>, \<open>new Date()\<close>), read as one instant per request;
  \<^item> \<open>newId\<close>: the document id the store gives to a created reservation;
  \<^item> \<open>toDataURL\<close>: the image the \<open>qrcode\<close> library renders for a text;
  \<^item> \<open>parseDate\<close>: the runtime's \<open>Date.parse\<close> (\<open>None\<close> is NaN);
  \<^item> \<open>localTZA\<close>: the runtime's local time zone adjustment in milliseconds (local time
    minus UTC): \<open>localTZA True t\<close> is the one in force at the UTC instant \<open>t\<close>,
    \<open>localTZA False t\<close> the one in force at the local time \<open>t\<close>;
  \<^item> \<open>formatDate\<close>, \<open>formatTime\<close>: \<open>toLocaleDateString\<close> and \<open>toLocaleTimeString\<close>
    with the options the creation handler passes.
\<close>

record env =
  faults :: "call \<Rightarrow> exn option"
  now :: int
  newId :: string
  toDataURL :: "string \<Rightarrow> string"
  parseDate :: "string \<Rightarrow> int option"
  localTZA :: "bool \<Rightarrow> int \<Rightarrow> int"
  formatDate :: "int option \<Rightarrow> string"
  formatTime :: "int option \<Rightarrow> string"

text \<open>A request field: absent, or a string. \<open>!x\<close> holds for an absent and for an empty
  one (\<open>falsy\<close>); as a condition, \<open>x\<close> holds for the others (\<open>truthy\<close>).\<close>

definition falsy :: "string option \<Rightarrow> bool" where
  "falsy x = (case x of None \<Rightarrow> True | Some s \<Rightarrow> s = [])"

definition truthy :: "string option \<Rightarrow> bool" where
  "truthy x = (case x of None \<Rightarrow> False | Some s \<Rightarrow> s \<noteq> [])"

definition str :: "string option \<Rightarrow> string" where
  "str x = (case x of None \<Rightarrow> [] | Some s \<Rightarrow> s)"

text \<open>\<open>error.message || d\<close>\<close>

definition message_or :: "exn \<Rightarrow> string \<Rightarrow> string" where
  "message_or e d = (case e of Error m \<Rightarrow> (if m = [] then d else m) | NonError \<Rightarrow> d)"

text \<open>\<open>error instanceof Error ? error.message : 'Unknown error'\<close>\<close>

definition message_of :: "exn \<Rightarrow> string" where
  "message_of e = (case e of Error m \<Rightarrow> m | NonError \<Rightarrow> ''Unknown error'')"

definition console_error :: "string \<Rightarrow> exn option \<Rightarrow> world \<Rightarrow> world" where
  "console_error t e w = w\<lparr>console := console w @ [ConsoleError t e]\<rparr>"

subsection \<open>The service layer\<close>

text \<open>
  The handlers import their services from \<open>@/lib/database\<close>, which is not among the
  sources. Each service call is modelled on the collections of \<^typ>\<open>world\<close>; a call
  throws exactly when \<open>faults\<close> says so, and then changes nothing.
\<close>

definition attempt :: "env \<Rightarrow> call \<Rightarrow> 'a \<Rightarrow> exn + 'a" where
  "attempt env c v = (case faults env c of Some e \<Rightarrow> Inl e | None \<Rightarrow> Inr v)"

text \<open>Modelled from the spec: \<open>userQRCodeService.getByQRCodeData\<close> (\<open>lookupByToken\<close>),
  which resolves a token to the identity that holds it, or to nothing.\<close>

definition getByQRCodeData :: "env \<Rightarrow> world \<Rightarrow> string \<Rightarrow> exn + userQRCode option" where
  "getByQRCodeData env w t =
     attempt env (UserQR_getByQRCodeData t) (find (\<lambda>q. q_qrCodeData q = t) (userQRCodes w))"

text \<open>Modelled from the spec: \<open>scheduleService.getById\<close>, the schedule lookup by id.\<close>

definition schedule_getById :: "env \<Rightarrow> world \<Rightarrow> string \<Rightarrow> exn + schedule option" where
  "schedule_getById env w i =
     attempt env (Schedule_getById i) (find (\<lambda>s. s_id s = i) (courseSchedules w))"

text \<open>Modelled from the spec: \<open>helmetReservationService.getByUserAndSchedule\<close>, which
  resolves the reservation for a (user, schedule) pair: the first stored one for that pair.\<close>

definition getByUserAndSchedule ::
  "env \<Rightarrow> world \<Rightarrow> string \<Rightarrow> string \<Rightarrow> exn + reservation option" where
  "getByUserAndSchedule env w u s =
     attempt env (Helmet_getByUserAndSchedule u s)
       (find (\<lambda>r. r_userId r = u \<and> r_scheduleId r = s) (helmetReservations w))"

text \<open>Modelled from the spec: \<open>helmetReservationService.getById\<close>, the lookup by id.\<close>

definition reservation_getById :: "env \<Rightarrow> world \<Rightarrow> string \<Rightarrow> exn + reservation option" where
  "reservation_getById env w i =
     attempt env (Helmet_getById i) (find (\<lambda>r. r_id r = i) (helmetReservations w))"

text \<open>Modelled from the spec: \<open>helmetReservationService.checkIn\<close>, which sets
  status to \<open>checked_in\<close>, records \<open>checkinTime = now\<close> and persists.\<close>

definition set_checked_in :: "int \<Rightarrow> string \<Rightarrow> reservation \<Rightarrow> reservation" where
  "set_checked_in t i r =
     (if r_id r = i then r\<lparr>r_status := checked_in, r_checkinTime := Some t\<rparr> else r)"

definition checkIn :: "env \<Rightarrow> world \<Rightarrow> string \<Rightarrow> exn + world" where
  "checkIn env w i =
     attempt env (Helmet_checkIn i)
       (w\<lparr>helmetReservations := map (set_checked_in (now env) i) (helmetReservations w)\<rparr>)"

text \<open>Modelled from the spec: \<open>helmetReservationService.cancel\<close>, which sets status
  to \<open>cancelled\<close> and persists.\<close>

definition set_cancelled :: "string \<Rightarrow> reservation \<Rightarrow> reservation" where
  "set_cancelled i r = (if r_id r = i then r\<lparr>r_status := cancelled\<rparr> else r)"

definition cancel :: "env \<Rightarrow> world \<Rightarrow> string \<Rightarrow> exn + world" where
  "cancel env w i =
     attempt env (Helmet_cancel i)
       (w\<lparr>helmetReservations := map (set_cancelled i) (helmetReservations w)\<rparr>)"

subsection \<open>The scan handler\<close>

text \<open>The \<open>catch\<close> of the scan handler.\<close>

definition scan_catch :: "exn \<Rightarrow> world \<Rightarrow> response \<times> world" where
  "scan_catch e w =
     ((500, JObj [(''error'', JStr (message_or e ''Internal server error''))]),
      console_error ''Error scanning QR code:'' (Some e) w)"

text \<open>\<open>checkinTime: reservation.checkinTime\<close>, left out of the body when undefined.\<close>

definition checkinTime_field :: "reservation \<Rightarrow> (string \<times> json) list" where
  "checkinTime_field r =
     (case r_checkinTime r of None \<Rightarrow> [] | Some t \<Rightarrow> [(''checkinTime'', JNum t)])"

definition scan_POST ::
  "env \<Rightarrow> string option \<Rightarrow> string option \<Rightarrow> world \<Rightarrow> response \<times> world" where
  "scan_POST env qrCodeData scheduleId w =
    (if falsy qrCodeData \<or> falsy scheduleId then
       ((400, JObj [(''error'', JStr ''Missing required fields: qrCodeData and scheduleId'')]), w)
     else
       case getByQRCodeData env w (str qrCodeData) of
         Inl e \<Rightarrow> scan_catch e w
       | Inr None \<Rightarrow>
           ((200, JObj [(''valid'', JBool False), (''status'', JStr ''invalid_qr''),
                        (''message'', JStr ''Invalid QR code'')]), w)
       | Inr (Some userQRCode) \<Rightarrow>
          (case schedule_getById env w (str scheduleId) of
             Inl e \<Rightarrow> scan_catch e w
           | Inr None \<Rightarrow>
               ((200, JObj [(''valid'', JBool False), (''status'', JStr ''invalid_schedule''),
                            (''message'', JStr ''Schedule not found'')]), w)
           | Inr (Some sch) \<Rightarrow>
              (case getByUserAndSchedule env w (q_userId userQRCode) (str scheduleId) of
                 Inl e \<Rightarrow> scan_catch e w
               | Inr None \<Rightarrow>
                   ((200, JObj [(''valid'', JBool False), (''status'', JStr ''no_reservation''),
                                (''message'', JStr ''No reservation found for this class''),
                                (''userName'', JStr [])]), w)
               | Inr (Some r) \<Rightarrow>
                   if r_status r = checked_in then
                     ((200, JObj ([(''valid'', JBool False),
                                   (''status'', JStr ''already_checked_in''),
                                   (''message'', JStr ''Already checked in''),
                                   (''userName'', JStr (r_userName r))]
                                  @ checkinTime_field r)), w)
                   else if r_status r = cancelled then
                     ((200, JObj [(''valid'', JBool False), (''status'', JStr ''cancelled''),
                                  (''message'', JStr ''Reservation was cancelled''),
                                  (''userName'', JStr (r_userName r))]), w)
                   else
                     (case checkIn env w (r_id r) of
                        Inl e \<Rightarrow> scan_catch e w
                      | Inr w' \<Rightarrow>
                          ((200, JObj [(''valid'', JBool True), (''status'', JStr ''success''),
                                       (''message'', JStr (''Welcome '' @ r_userName r @ ''!'')),
                                       (''userName'', JStr (r_userName r)),
                                       (''userEmail'', JStr (r_userEmail r)),
                                       (''courseName'', JStr (r_courseName r)),
                                       (''location'', JStr (r_location r)),
                                       (''reservationId'', JStr (r_id r))]), w')))))"

subsection \<open>The cancellation handler\<close>

definition reservation_DELETE :: "env \<Rightarrow> string option \<Rightarrow> world \<Rightarrow> response \<times> world" where
  "reservation_DELETE env reservationId w =
    (if falsy reservationId then
       ((400, JObj [(''error'', JStr ''Reservation ID is required'')]), w)
     else
       case reservation_getById env w (str reservationId) of
         Inl e \<Rightarrow>
           ((500, JObj [(''error'', JStr (message_or e ''Internal server error''))]),
            console_error ''Error cancelling reservation:'' (Some e) w)
       | Inr None \<Rightarrow> ((404, JObj [(''error'', JStr ''Reservation not found'')]), w)
       | Inr (Some r) \<Rightarrow>
           if r_status r = checked_in then
             ((400, JObj [(''error'',
                 JStr ''Cannot cancel a reservation that has already been checked in'')]), w)
           else
             (case cancel env w (str reservationId) of
                Inl e \<Rightarrow>
                  ((500, JObj [(''error'', JStr (message_or e ''Internal server error''))]),
                   console_error ''Error cancelling reservation:'' (Some e) w)
              | Inr w' \<Rightarrow>
                  ((200, JObj [(''success'', JBool True),
                               (''message'', JStr ''Reservation cancelled successfully'')]), w')))"

subsection \<open>The creation handler\<close>

text \<open>Decimal digits of a number, as a template literal prints it.\<close>

definition digit :: "nat \<Rightarrow> char" where
  "digit d = ''0123456789'' ! d"

fun string_of_nat :: "nat \<Rightarrow> string" where
  "string_of_nat n =
     (if n < 10 then [digit n] else string_of_nat (n div 10) @ [digit (n mod 10)])"

declare string_of_nat.simps [simp del]

definition string_of_int :: "int \<Rightarrow> string" where
  "string_of_int i = (if i < 0 then CHR ''-'' # string_of_nat (nat (- i)) else string_of_nat (nat i))"

text \<open>Modelled from the spec: \<open>userService.getById\<close>, the user lookup by id.\<close>

definition user_getById :: "env \<Rightarrow> world \<Rightarrow> string \<Rightarrow> exn + user option" where
  "user_getById env w i = attempt env (User_getById i) (find (\<lambda>u. u_id u = i) (users w))"

text \<open>Modelled from the spec: \<open>userQRCodeService.getByUserId\<close>, which looks up the
  existing identity of a user.\<close>

definition getByUserId :: "env \<Rightarrow> world \<Rightarrow> string \<Rightarrow> exn + userQRCode option" where
  "getByUserId env w u =
     attempt env (UserQR_getByUserId u) (find (\<lambda>q. q_userId q = u) (userQRCodes w))"

text \<open>Modelled from the spec: \<open>userQRCodeService.create\<close>, which persists an identity.\<close>

definition userQRCode_create :: "env \<Rightarrow> world \<Rightarrow> userQRCode \<Rightarrow> exn + world" where
  "userQRCode_create env w q =
     attempt env (UserQR_create (q_userId q)) (w\<lparr>userQRCodes := userQRCodes w @ [q]\<rparr>)"

text \<open>Modelled from the spec: \<open>helmetReservationService.create\<close>, which persists the
  reservation under the id the store gives it and returns that id.\<close>

definition reservation_create :: "env \<Rightarrow> world \<Rightarrow> reservation \<Rightarrow> exn + (string \<times> world)" where
  "reservation_create env w r =
     attempt env (Helmet_create (r_userId r) (r_scheduleId r))
       (newId env, w\<lparr>helmetReservations := helmetReservations w @ [r\<lparr>r_id := newId env\<rparr>]\<rparr>)"

text \<open>Modelled from the spec: \<open>notificationService.create\<close>, the notification creation.\<close>

definition notification_create :: "env \<Rightarrow> world \<Rightarrow> notification \<Rightarrow> exn + world" where
  "notification_create env w n =
     attempt env (Notification_create (n_userId n)) (w\<lparr>notifications := notifications w @ [n]\<rparr>)"

text \<open>The \<open>fetch\<close> of the email endpoint: the request sent is recorded.\<close>

definition fetch_sendEmail :: "env \<Rightarrow> world \<Rightarrow> email \<Rightarrow> exn + world" where
  "fetch_sendEmail env w m = attempt env Fetch_sendEmail (w\<lparr>sentEmails := sentEmails w @ [m]\<rparr>)"

definition create_catch :: "exn \<Rightarrow> world \<Rightarrow> response \<times> world" where
  "create_catch e w =
     ((500, JObj [(''error'', JStr (message_or e ''Internal server error''))]),
      console_error ''Error creating helmet reservation:'' (Some e) w)"

text \<open>
  Lines 45 to 66 of the creation handler: get the user's QR code, or create it.
  The result is the final value of \<open>userQRCode\<close>, or what was thrown.
\<close>

definition resolveOrCreate :: "env \<Rightarrow> world \<Rightarrow> string \<Rightarrow> (exn + userQRCode option) \<times> world" where
  "resolveOrCreate env w userId =
    (case getByUserId env w userId of
       Inl e \<Rightarrow> (Inl e, w)
     | Inr (Some q) \<Rightarrow> (Inr (Some q), w)
     | Inr None \<Rightarrow>
        (let qrCodeData = ''USER_'' @ userId @ ''_'' @ string_of_int (now env) in
         case attempt env (QRCode_toDataURL qrCodeData) (toDataURL env qrCodeData) of
           Inl e \<Rightarrow> (Inl e, w)
         | Inr qrCodeImage \<Rightarrow>
            (case userQRCode_create env w
                    \<lparr>q_userId = userId, q_qrCodeData = qrCodeData, q_qrCodeImage = qrCodeImage\<rparr> of
               Inl e \<Rightarrow> (Inl e, w)
             | Inr w' \<Rightarrow>
                (case getByUserId env w' userId of
                   Inl e \<Rightarrow> (Inl e, w')
                 | Inr q \<Rightarrow> (Inr q, w')))))"

text \<open>
  \<open>t instanceof Date ? t : t.toDate()\<close>, where \<open>what\<close> is the expression \<open>t\<close> as
  written. On a value with no \<open>toDate\<close> function the call throws a TypeError, with the
  message of the V8 engine; \<open>Missing\<close> is taken as \<open>undefined\<close> there.
\<close>

definition asDate :: "string \<Rightarrow> time_value \<Rightarrow> exn + int option" where
  "asDate what t =
     (case t of
        NativeDate d \<Rightarrow> Inr d
      | WithToDate r \<Rightarrow> r
      | Missing \<Rightarrow>
          Inl (Error (''Cannot read properties of undefined (reading '' @ [CHR 0x27]
                      @ ''toDate'' @ [CHR 0x27] @ '')''))
      | _ \<Rightarrow> Inl (Error (what @ ''.toDate is not a function'')))"

text \<open>Lines 76 to 92: the record given to \<open>helmetReservationService.create\<close>, which
  has no id yet.\<close>

definition bookedReservation ::
  "env \<Rightarrow> string \<Rightarrow> string \<Rightarrow> user \<Rightarrow> schedule \<Rightarrow> userQRCode \<Rightarrow> reservation" where
  "bookedReservation env userId scheduleId usr sch userQRCode =
     \<lparr>r_id = [], r_userId = userId,
      r_userName = u_firstName usr @ '' '' @ u_lastName usr,
      r_userEmail = u_email usr, r_courseId = s_courseId sch,
      r_courseName = s_title sch, r_scheduleId = scheduleId,
      r_coachId = s_createdBy sch, r_coachName = [],
      r_reservationDate = now env, r_classDate = s_startTime sch,
      r_classStartTime = s_startTime sch, r_classEndTime = s_endTime sch,
      r_location = s_location sch, r_status = booked,
      r_qrCode = q_qrCodeData userQRCode, r_checkinTime = None\<rparr>"

text \<open>Lines 118 to 152: the notification, the email, the success response.\<close>

definition notify_and_respond ::
  "env \<Rightarrow> world \<Rightarrow> string \<Rightarrow> user \<Rightarrow> schedule \<Rightarrow> userQRCode \<Rightarrow> string \<Rightarrow> string \<Rightarrow> string
     \<Rightarrow> response \<times> world" where
  "notify_and_respond env w userId usr sch userQRCode reservationId formattedDate formattedTime =
    (case notification_create env w
            \<lparr>n_userId = userId, n_title = ''Helmet Reserved!'',
             n_message = ''Your helmet is reserved for '' @ s_title sch @ '' on '' @ formattedDate,
             n_type = ''booking'', n_read = False\<rparr> of
       Inl e \<Rightarrow> create_catch e w
     | Inr w1 \<Rightarrow>
        (let w2 =
           (case fetch_sendEmail env w1
                   \<lparr>e_userEmail = u_email usr,
                    e_userName = u_firstName usr @ '' '' @ u_lastName usr,
                    e_courseName = s_title sch, e_classDate = formattedDate,
                    e_classTime = formattedTime, e_location = s_location sch,
                    e_qrCodeImage = q_qrCodeImage userQRCode\<rparr> of
              Inl emailError \<Rightarrow> console_error ''Error sending email:'' (Some emailError) w1
            | Inr w' \<Rightarrow> w')
         in ((200, JObj [(''success'', JBool True), (''reservationId'', JStr reservationId),
                         (''qrCode'', JStr (q_qrCodeImage userQRCode)),
                         (''message'', JStr ''Helmet reservation created successfully'')]), w2)))"

definition create_POST ::
  "env \<Rightarrow> string option \<Rightarrow> string option \<Rightarrow> world \<Rightarrow> response \<times> world" where
  "create_POST env userId scheduleId w =
    (if falsy userId \<or> falsy scheduleId then
       ((400, JObj [(''error'', JStr ''Missing required fields: userId and scheduleId'')]), w)
     else
       case user_getById env w (str userId) of
         Inl e \<Rightarrow> create_catch e w
       | Inr None \<Rightarrow> ((404, JObj [(''error'', JStr ''User not found'')]), w)
       | Inr (Some usr) \<Rightarrow>
      (case schedule_getById env w (str scheduleId) of
         Inl e \<Rightarrow> create_catch e w
       | Inr None \<Rightarrow> ((404, JObj [(''error'', JStr ''Schedule not found'')]), w)
       | Inr (Some sch) \<Rightarrow>
      (case getByUserAndSchedule env w (str userId) (str scheduleId) of
         Inl e \<Rightarrow> create_catch e w
       | Inr existingReservation \<Rightarrow>
      (if (case existingReservation of None \<Rightarrow> False | Some r \<Rightarrow> r_status r \<noteq> cancelled) then
         ((400, JObj [(''error'', JStr ''You already have a reservation for this class'')]), w)
       else
      (case resolveOrCreate env w (str userId) of
         (Inl e, w1) \<Rightarrow> create_catch e w1
       | (Inr None, w1) \<Rightarrow> ((500, JObj [(''error'', JStr ''Failed to generate QR code'')]), w1)
       | (Inr (Some userQRCode), w1) \<Rightarrow>
      (case reservation_create env w1
              (bookedReservation env (str userId) (str scheduleId) usr sch userQRCode) of
         Inl e \<Rightarrow> create_catch e w1
       | Inr (reservationId, w2) \<Rightarrow>
      (case asDate ''schedule.startTime'' (s_startTime sch) of
         Inl e \<Rightarrow> create_catch e w2
       | Inr classDate \<Rightarrow>
      (case asDate ''schedule.endTime'' (s_endTime sch) of
         Inl e \<Rightarrow> create_catch e w2
       | Inr endTime \<Rightarrow>
           notify_and_respond env w2 (str userId) usr sch userQRCode reservationId
             (formatDate env classDate)
             (formatTime env classDate @ '' - '' @ formatTime env endTime)))))))))"

subsection \<open>The bulk schedule deletion handler\<close>

text \<open>Modelled from the spec: \<open>courseService.getById\<close>, the course lookup by id.\<close>

definition course_getById :: "env \<Rightarrow> world \<Rightarrow> string \<Rightarrow> exn + course option" where
  "course_getById env w i = attempt env (Course_getById i) (find (\<lambda>c. c_id c = i) (courses w))"

text \<open>Modelled from the spec: \<open>courseService.getAll\<close>, the listing of all courses.\<close>

definition course_getAll :: "env \<Rightarrow> world \<Rightarrow> exn + course list" where
  "course_getAll env w = attempt env Course_getAll (courses w)"

text \<open>Modelled from the spec: \<open>helmetReservationService.getByScheduleId\<close>, which looks
  up the reservations of a schedule.\<close>

definition getByScheduleId :: "env \<Rightarrow> world \<Rightarrow> string \<Rightarrow> exn + reservation list" where
  "getByScheduleId env w i =
     attempt env (Helmet_getByScheduleId i) (filter (\<lambda>r. r_scheduleId r = i) (helmetReservations w))"

text \<open>The store's \<open>getDocs(collection(db, 'courseSchedules'))\<close>: every schedule, in stored order.\<close>

definition getDocs_courseSchedules :: "env \<Rightarrow> world \<Rightarrow> exn + schedule list" where
  "getDocs_courseSchedules env w = attempt env GetDocs_courseSchedules (courseSchedules w)"

text \<open>The store's \<open>deleteDoc(doc(db, 'courseSchedules', id))\<close>; deleting an absent document
  is not an error.\<close>

definition deleteDoc :: "env \<Rightarrow> world \<Rightarrow> string \<Rightarrow> exn + world" where
  "deleteDoc env w i =
     attempt env (DeleteDoc_courseSchedules i)
       (w\<lparr>courseSchedules := filter (\<lambda>s. s_id s \<noteq> i) (courseSchedules w)\<rparr>)"

definition delete_catch :: "exn \<Rightarrow> world \<Rightarrow> response \<times> world" where
  "delete_catch e w =
     ((500, JObj [(''error'', JStr ''Failed to delete schedules''),
                  (''details'', JStr (message_of e))]),
      console_error ''Error in delete schedules endpoint:'' (Some e) w)"

text \<open>
  Step 2, the filter by coach ownership (lines 68 to 82): the schedule was created by
  the coach, or its course belongs to the coach.
\<close>

definition ownedBy :: "course list \<Rightarrow> string \<Rightarrow> schedule \<Rightarrow> bool" where
  "ownedBy allCourses coachIdStr sch =
     (if s_createdBy sch = coachIdStr then True
      else case find (\<lambda>c. c_id c = s_courseId sch) allCourses of
             Some c \<Rightarrow> c_coachId c = coachIdStr
           | None \<Rightarrow> False)"

text \<open>
  Step 2 (lines 38 to 84). The result is an early response, or the schedules that
  remain; an exception goes to the handler's \<open>catch\<close>.
\<close>

definition filterByCourseOrCoach ::
  "env \<Rightarrow> world \<Rightarrow> string option \<Rightarrow> string option \<Rightarrow> schedule list
     \<Rightarrow> exn + (response + schedule list)" where
  "filterByCourseOrCoach env w courseId coachId schedules =
    (if truthy courseId then
       (case course_getById env w (str courseId) of
          Inl e \<Rightarrow> Inl e
        | Inr None \<Rightarrow> Inr (Inl (404, JObj [(''error'', JStr ''Course not found'')]))
        | Inr (Some c) \<Rightarrow>
            if c_coachId c \<noteq> str coachId then
              Inr (Inl (403, JObj [(''error'',
                JStr ''You do not have permission to delete schedules for this course'')]))
            else Inr (Inr (filter (\<lambda>sch. s_courseId sch = str courseId) schedules)))
     else
       (case course_getAll env w of
          Inl e \<Rightarrow> Inl e
        | Inr allCourses \<Rightarrow> Inr (Inr (filter (ownedBy allCourses (str coachId)) schedules))))"

text \<open>
  Time values. \<open>new Date(n)\<close> clips a number out of the range of \<open>Date\<close> to NaN;
  \<open>setHours(h, m, s, ms)\<close> takes the local time of the instant, keeps its day,
  replaces the time of day and goes back to UTC; \<open>a < b\<close>
  on two \<open>Date\<close>s compares their time values and is false when either is NaN.
\<close>

definition timeClip :: "int \<Rightarrow> int option" where
  "timeClip t = (if \<bar>t\<bar> \<le> 8640000000000000 then Some t else None)"

definition msPerDay :: int where
  "msPerDay = 86400000"

definition setHours :: "env \<Rightarrow> int \<Rightarrow> int \<Rightarrow> int \<Rightarrow> int \<Rightarrow> int option \<Rightarrow> int option" where
  "setHours env h m s ms d =
     (case d of
        None \<Rightarrow> None
      | Some t \<Rightarrow>
          (let local = t + localTZA env True t;
               date = (local div msPerDay) * msPerDay
                      + (h * 3600000 + m * 60000 + s * 1000 + ms)
           in timeClip (date - localTZA env False date)))"

definition date_lt :: "int option \<Rightarrow> int option \<Rightarrow> bool" where
  "date_lt a b = (case (a, b) of (Some x, Some y) \<Rightarrow> x < y | _ \<Rightarrow> False)"

definition date_gt :: "int option \<Rightarrow> int option \<Rightarrow> bool" where
  "date_gt a b = (case (a, b) of (Some x, Some y) \<Rightarrow> x > y | _ \<Rightarrow> False)"

text \<open>
  Lines 88 to 96: a bound is \<open>null\<close> (\<open>None\<close>) when the request gives none, else the
  \<open>Date\<close> of the given string moved to the start or to the end of its local day.
\<close>

definition startBound :: "env \<Rightarrow> string option \<Rightarrow> int option option" where
  "startBound env startDate =
     (if truthy startDate then Some (setHours env 0 0 0 0 (parseDate env (str startDate)))
      else None)"

definition endBound :: "env \<Rightarrow> string option \<Rightarrow> int option option" where
  "endBound env endDate =
     (if truthy endDate then Some (setHours env 23 59 59 999 (parseDate env (str endDate)))
      else None)"

text \<open>
  Lines 104 to 114: the \<open>Date\<close> taken from a schedule's \<open>startTime\<close>. \<open>Inl\<close> is
  an exception; \<open>Inr None\<close> is the branch that returns false at once.
\<close>

definition scheduleStartTime :: "env \<Rightarrow> time_value \<Rightarrow> exn + int option option" where
  "scheduleStartTime env t =
     (case t of
        WithToDate r \<Rightarrow> (case r of Inl e \<Rightarrow> Inl e | Inr d \<Rightarrow> Inr (Some d))
      | NativeDate d \<Rightarrow> Inr (Some d)
      | WithSeconds sec \<Rightarrow>
          Inr (Some (case sec of None \<Rightarrow> None | Some n \<Rightarrow> timeClip (n * 1000)))
      | RawString x \<Rightarrow> (if x = [] then Inr None else Inr (Some (parseDate env x)))
      | RawNumber n \<Rightarrow> (if n = 0 then Inr None else Inr (Some (timeClip n)))
      | Missing \<Rightarrow> Inr None)"

text \<open>Lines 100 to 130, the callback of the date filter: keep or drop, or the exception caught.\<close>

definition inDateRange ::
  "env \<Rightarrow> int option option \<Rightarrow> int option option \<Rightarrow> schedule \<Rightarrow> exn + bool" where
  "inDateRange env start end' sch =
     (case scheduleStartTime env (s_startTime sch) of
        Inl e \<Rightarrow> Inl e
      | Inr None \<Rightarrow> Inr False
      | Inr (Some d) \<Rightarrow>
          (if (case start of None \<Rightarrow> False | Some b \<Rightarrow> date_lt d b) then Inr False
           else if (case end' of None \<Rightarrow> False | Some b \<Rightarrow> date_gt d b) then Inr False
           else Inr True))"

text \<open>The filter itself: a caught exception is printed and drops the schedule.\<close>

fun filterByDate ::
  "env \<Rightarrow> int option option \<Rightarrow> int option option \<Rightarrow> schedule list \<Rightarrow> world
     \<Rightarrow> schedule list \<times> world" where
  "filterByDate env start end' [] w = ([], w)"
| "filterByDate env start end' (sch # rest) w =
     (case inDateRange env start end' sch of
        Inl e \<Rightarrow>
          filterByDate env start end' rest
            (console_error (''Error parsing schedule '' @ s_id sch @ '' startTime:'') (Some e) w)
      | Inr keep \<Rightarrow>
          (case filterByDate env start end' rest w of
             (kept, w') \<Rightarrow> (if keep then sch # kept else kept, w')))"

text \<open>
  Lines 153 to 163, the inner loop over the reservations of one schedule. It stops at the
  first exception, which the inner \<open>catch\<close> receives; the cancellations made and counted
  before it stay.
\<close>

fun cancelEach :: "env \<Rightarrow> reservation list \<Rightarrow> world \<Rightarrow> nat \<Rightarrow> exn option \<times> world \<times> nat" where
  "cancelEach env [] w n = (None, w, n)"
| "cancelEach env (r # rs) w n =
     (if r_status r \<noteq> checked_in \<and> r_status r \<noteq> cancelled then
        (case cancel env w (r_id r) of
           Inl e \<Rightarrow> (Some e, w, n)
         | Inr w' \<Rightarrow> cancelEach env rs w' (Suc n))
      else cancelEach env rs w n)"

definition cancelReservations :: "env \<Rightarrow> schedule \<Rightarrow> world \<Rightarrow> nat \<Rightarrow> world \<times> nat" where
  "cancelReservations env sch w n =
     (case getByScheduleId env w (s_id sch) of
        Inl resError \<Rightarrow>
          (console_error (''Error cancelling reservations for schedule '' @ s_id sch @ '':'')
             (Some resError) w, n)
      | Inr reservations \<Rightarrow>
          (case cancelEach env reservations w n of
             (Some resError, w', n') \<Rightarrow>
               (console_error (''Error cancelling reservations for schedule '' @ s_id sch @ '':'')
                  (Some resError) w', n')
           | (None, w', n') \<Rightarrow> (w', n')))"

text \<open>The state of the loop of step 4.\<close>

record progress =
  p_world :: world
  deletedCount :: nat
  cancelledReservationsCount :: nat
  errors :: "string list"

text \<open>Lines 150 to 174, the loop over the matched schedules.\<close>

fun deleteEach :: "env \<Rightarrow> schedule list \<Rightarrow> progress \<Rightarrow> progress" where
  "deleteEach env [] p = p"
| "deleteEach env (sch # rest) p =
     (case cancelReservations env sch (p_world p) (cancelledReservationsCount p) of
        (w1, n1) \<Rightarrow>
          (case deleteDoc env w1 (s_id sch) of
             Inr w2 \<Rightarrow>
               deleteEach env rest
                 (p\<lparr>p_world := w2, deletedCount := Suc (deletedCount p),
                    cancelledReservationsCount := n1\<rparr>)
           | Inl e \<Rightarrow>
               (let errorMsg = ''Error deleting schedule '' @ s_id sch @ '': '' @ message_of e
                in deleteEach env rest
                     (p\<lparr>p_world := console_error errorMsg None w1,
                        cancelledReservationsCount := n1,
                        errors := errors p @ [errorMsg]\<rparr>))))"

text \<open>Lines 176 to 182, the final response. The accented letters are Latin-1 code points.\<close>

definition delete_summary :: "progress \<Rightarrow> response" where
  "delete_summary p =
     (200, JObj ([(''success'', JBool True),
                  (''deletedCount'', JNum (int (deletedCount p))),
                  (''cancelledReservationsCount'', JNum (int (cancelledReservationsCount p)))]
                 @ (if length (errors p) > 0 then [(''errors'', JArr (map JStr (errors p)))] else [])
                 @ [(''message'', JStr (string_of_nat (deletedCount p)
                      @ '' session(s) supprim'' @ [CHR 0xE9] @ ''e(s) avec succ''
                      @ [CHR 0xE8] @ ''s''
                      @ (if cancelledReservationsCount p > 0 then
                           '' et '' @ string_of_nat (cancelledReservationsCount p)
                           @ '' r'' @ [CHR 0xE9] @ ''servation(s) annul''
                           @ [CHR 0xE9] @ ''e(s)''
                         else [])))]))"

text \<open>Steps 1 to 3 (lines 28 to 133): the matched schedules, or an early response.\<close>

definition matchSchedules ::
  "env \<Rightarrow> string option \<Rightarrow> string option \<Rightarrow> string option \<Rightarrow> string option \<Rightarrow> world
     \<Rightarrow> (exn + (response + schedule list)) \<times> world" where
  "matchSchedules env courseId startDate endDate coachId w =
    (case getDocs_courseSchedules env w of
       Inl e \<Rightarrow> (Inl e, w)
     | Inr schedules \<Rightarrow>
        (case filterByCourseOrCoach env w courseId coachId schedules of
           Inl e \<Rightarrow> (Inl e, w)
         | Inr (Inl early) \<Rightarrow> (Inr (Inl early), w)
         | Inr (Inr schedules') \<Rightarrow>
             if truthy startDate \<or> truthy endDate then
               (case filterByDate env (startBound env startDate) (endBound env endDate)
                       schedules' w of
                  (kept, w') \<Rightarrow> (Inr (Inr kept), w'))
             else (Inr (Inr schedules'), w)))"

definition delete_schedules_POST ::
  "env \<Rightarrow> string option \<Rightarrow> string option \<Rightarrow> string option \<Rightarrow> string option \<Rightarrow> world
     \<Rightarrow> response \<times> world" where
  "delete_schedules_POST env courseId startDate endDate coachId w =
    (if falsy coachId then ((400, JObj [(''error'', JStr ''Coach ID is required'')]), w)
     else if falsy courseId \<and> falsy startDate \<and> falsy endDate then
       ((400, JObj [(''error'',
           JStr ''At least one filter (course or date range) must be provided'')]), w)
     else
       case matchSchedules env courseId startDate endDate coachId w of
         (Inl e, w') \<Rightarrow> delete_catch e w'
       | (Inr (Inl early), w') \<Rightarrow> (early, w')
       | (Inr (Inr schedules), w') \<Rightarrow>
           if length schedules = 0 then
             ((200, JObj [(''success'', JBool False), (''deletedCount'', JNum 0),
                          (''message'', JStr (''Aucune session trouv'' @ [CHR 0xE9]
                             @ ''e correspondant aux crit'' @ [CHR 0xE8]
                             @ ''res s'' @ [CHR 0xE9] @ ''lectionn''
                             @ [CHR 0xE9] @ ''s''))]), w')
           else
             (let p = deleteEach env schedules
                        \<lparr>p_world = w', deletedCount = 0, cancelledReservationsCount = 0,
                         errors = []\<rparr>
              in (delete_summary p, p_world p)))"

subsection \<open>Reading a response\<close>

text \<open>The value of a property of a JSON object.\<close>

definition field :: "string \<Rightarrow> json \<Rightarrow> json option" where
  "field k j = (case j of JObj kvs \<Rightarrow> map_of kvs k | _ \<Rightarrow> None)"

text \<open>The schedules whose deletion call does not throw, and the line that the loop of
  step 4 records for one whose deletion call throws.\<close>

definition deletable :: "env \<Rightarrow> schedule \<Rightarrow> bool" where
  "deletable env sch = (faults env (DeleteDoc_courseSchedules (s_id sch)) = None)"

definition deletion_error :: "env \<Rightarrow> schedule \<Rightarrow> string" where
  "deletion_error env sch =
     ''Error deleting schedule '' @ s_id sch @ '': '' @
       (case faults env (DeleteDoc_courseSchedules (s_id sch)) of
          Some e \<Rightarrow> message_of e | None \<Rightarrow> [])"

subsection \<open>An example world\<close>

text \<open>
  A small studio: five users, three schedules (the second with a start time that is not a
  date), two courses of two coaches, and three reservations for the first schedule, one
  in each status. The fifth user has no QR identity yet.
\<close>

definition demo_users :: "user list" where
  "demo_users =
     [\<lparr>u_id = ''u1'', u_firstName = ''Ada'', u_lastName = ''Diop'', u_email = ''ada@example.org''\<rparr>,
      \<lparr>u_id = ''u2'', u_firstName = ''Bob'', u_lastName = ''Kane'', u_email = ''bob@example.org''\<rparr>,
      \<lparr>u_id = ''u3'', u_firstName = ''Cy'', u_lastName = ''Sow'', u_email = ''cy@example.org''\<rparr>,
      \<lparr>u_id = ''u4'', u_firstName = ''Dee'', u_lastName = ''Ba'', u_email = ''dee@example.org''\<rparr>,
      \<lparr>u_id = ''u5'', u_firstName = ''Eve'', u_lastName = ''Fall'', u_email = ''eve@example.org''\<rparr>]"

definition demo_s1 :: schedule where
  "demo_s1 =
     \<lparr>s_id = ''s1'', s_courseId = ''c1'', s_title = ''Afro Dance'',
      s_startTime = WithToDate (Inr (Some 1710064800000)),
      s_endTime = WithToDate (Inr (Some 1710068400000)),
      s_location = ''Studio A'', s_createdBy = ''coach1''\<rparr>"

definition demo_s2 :: schedule where
  "demo_s2 =
     \<lparr>s_id = ''s2'', s_courseId = ''c1'', s_title = ''Afro Dance'',
      s_startTime = RawString ''to be announced'',
      s_endTime = RawString ''to be announced'',
      s_location = ''Studio A'', s_createdBy = ''coach1''\<rparr>"

definition demo_s3 :: schedule where
  "demo_s3 =
     \<lparr>s_id = ''s3'', s_courseId = ''c2'', s_title = ''Cardio'',
      s_startTime = NativeDate (Some 1710151200000),
      s_endTime = NativeDate (Some 1710154800000),
      s_location = ''Studio B'', s_createdBy = ''coach2''\<rparr>"

definition demo_reservation :: "string \<Rightarrow> string \<Rightarrow> string \<Rightarrow> res_status \<Rightarrow> int option \<Rightarrow> reservation" where
  "demo_reservation i u name st t =
     \<lparr>r_id = i, r_userId = u, r_userName = name, r_userEmail = u @ ''@example.org'',
      r_courseId = ''c1'', r_courseName = ''Afro Dance'', r_scheduleId = ''s1'',
      r_coachId = ''coach1'', r_coachName = [], r_reservationDate = 1709900000000,
      r_classDate = s_startTime demo_s1, r_classStartTime = s_startTime demo_s1,
      r_classEndTime = s_endTime demo_s1, r_location = ''Studio A'', r_status = st,
      r_qrCode = ''USER_'' @ u @ ''_1709000000000'', r_checkinTime = t\<rparr>"

definition demo_qr :: "string \<Rightarrow> userQRCode" where
  "demo_qr u =
     \<lparr>q_userId = u, q_qrCodeData = ''USER_'' @ u @ ''_1709000000000'',
      q_qrCodeImage = ''data:image/png;'' @ u\<rparr>"

definition demo_world :: world where
  "demo_world =
     \<lparr>users = demo_users,
      courseSchedules = [demo_s1, demo_s2, demo_s3],
      courses = [\<lparr>c_id = ''c1'', c_coachId = ''coach1''\<rparr>, \<lparr>c_id = ''c2'', c_coachId = ''coach2''\<rparr>],
      helmetReservations =
        [demo_reservation ''r1'' ''u1'' ''Ada Diop'' booked None,
         demo_reservation ''r3'' ''u3'' ''Cy Sow'' checked_in (Some 1710064000000),
         demo_reservation ''r4'' ''u4'' ''Dee Ba'' cancelled None],
      userQRCodes = [demo_qr ''u1'', demo_qr ''u2'', demo_qr ''u3'', demo_qr ''u4''],
      notifications = [], sentEmails = [], console = []\<rparr>"

text \<open>An environment in which exactly the call \<open>bad\<close> throws \<open>e\<close>, and one without faults.\<close>

definition demo_env_failing :: "call \<Rightarrow> exn \<Rightarrow> env" where
  "demo_env_failing bad e =
     \<lparr>faults = (\<lambda>c. if c = bad then Some e else None),
      now = 1710000000000, newId = ''r9'',
      toDataURL = (\<lambda>t. ''data:image/png;'' @ t),
      parseDate = (\<lambda>x. if x = ''2024-03-10'' then Some 1710028800000 else None),
      localTZA = (\<lambda>isUTC t. 3600000),
      formatDate = (\<lambda>d. case d of None \<Rightarrow> ''Invalid Date'' | Some t \<Rightarrow> ''Sunday, March 10, 2024''),
      formatTime = (\<lambda>d. case d of None \<Rightarrow> ''Invalid Date'' | Some t \<Rightarrow> ''10:00 AM'')\<rparr>"

definition demo_env :: env where
  "demo_env = (demo_env_failing Fetch_sendEmail NonError)\<lparr>faults := (\<lambda>c. None)\<rparr>"

section \<open>Properties\<close>

subsection \<open>Auxiliary facts\<close>

lemma attempt_Inr: "attempt env c v = Inr x \<longleftrightarrow> faults env c = None \<and> x = v"
  by (auto simp: attempt_def split: option.splits)

lemma attempt_Inl: "attempt env c v = Inl e \<longleftrightarrow> faults env c = Some e"
  by (auto simp: attempt_def split: option.splits)

lemma falsy_truthy: "falsy x = (\<not> truthy x)"
  by (cases x) (auto simp: falsy_def truthy_def)

lemma find_map_inv: "(\<And>x. P (f x) = P x) \<Longrightarrow> find P (map f xs) = map_option f (find P xs)"
  by (induction xs) auto

lemmas demo_defs = demo_world_def demo_users_def demo_s1_def demo_s2_def demo_s3_def
  demo_reservation_def demo_qr_def demo_env_def demo_env_failing_def

lemmas svc_defs = getByQRCodeData_def schedule_getById_def getByUserAndSchedule_def
  reservation_getById_def checkIn_def cancel_def attempt_def falsy_def truthy_def str_def

lemmas create_defs = user_getById_def getByUserId_def userQRCode_create_def
  reservation_create_def notification_create_def fetch_sendEmail_def create_catch_def
  console_error_def resolveOrCreate_def asDate_def notify_and_respond_def bookedReservation_def
  message_or_def



lemma resolveOrCreate_console:
  "console (snd (resolveOrCreate env w u)) = console w"
  by (simp add: resolveOrCreate_def getByUserId_def userQRCode_create_def attempt_def Let_def
      split: option.splits sum.splits)

lemma resolveOrCreate_sentEmails:
  "sentEmails (snd (resolveOrCreate env w u)) = sentEmails w"
  by (simp add: resolveOrCreate_def getByUserId_def userQRCode_create_def attempt_def Let_def
      split: option.splits sum.splits)

lemma resolveOrCreate_found:
  "getByUserId env w u = Inr (Some q) \<Longrightarrow> resolveOrCreate env w u = (Inr (Some q), w)"
  by (simp add: resolveOrCreate_def)

lemma find_append_new:
  "find P xs = None \<Longrightarrow> P y \<Longrightarrow> find P (xs @ [y]) = Some y"
  by (induction xs) (auto split: if_splits)

lemma resolveOrCreate_creates:
  assumes "getByUserId env w u = Inr None"
    and "faults env (QRCode_toDataURL (''USER_'' @ u @ ''_'' @ string_of_int (now env))) = None"
    and "faults env (UserQR_create u) = None"
  shows "resolveOrCreate env w u =
     (Inr (Some \<lparr>q_userId = u,
                 q_qrCodeData = ''USER_'' @ u @ ''_'' @ string_of_int (now env),
                 q_qrCodeImage = toDataURL env (''USER_'' @ u @ ''_'' @ string_of_int (now env))\<rparr>),
      w\<lparr>userQRCodes := userQRCodes w @
         [\<lparr>q_userId = u,
           q_qrCodeData = ''USER_'' @ u @ ''_'' @ string_of_int (now env),
           q_qrCodeImage = toDataURL env (''USER_'' @ u @ ''_'' @ string_of_int (now env))\<rparr>]\<rparr>)"
proof -
  from assms(1) have f: "faults env (UserQR_getByUserId u) = None"
    and n: "find (\<lambda>q. q_userId q = u) (userQRCodes w) = None"
    by (simp_all add: getByUserId_def attempt_Inr)
  show ?thesis
    using assms(2,3) f n
    by (simp add: resolveOrCreate_def getByUserId_def userQRCode_create_def attempt_def Let_def
          find_append_new)
qed

lemma resolveOrCreate_stored:
  "resolveOrCreate env w u = (Inr (Some q), w1) \<Longrightarrow>
     find (\<lambda>x. q_userId x = u) (userQRCodes w1) = Some q"
  by (auto simp add: resolveOrCreate_def getByUserId_def userQRCode_create_def attempt_def Let_def
      split: option.splits sum.splits)

lemma resolveOrCreate_again:
  assumes "resolveOrCreate env w u = (Inr (Some q), w1)"
    and "faults env' (UserQR_getByUserId u) = None"
  shows "resolveOrCreate env' w1 u = (Inr (Some q), w1)"
  using resolveOrCreate_stored [OF assms(1)] assms(2)
  by (simp add: resolveOrCreate_def getByUserId_def attempt_def)

lemma find_None_filter: "find P xs = None \<Longrightarrow> filter P xs = []"
  by (induction xs) (auto split: if_splits)

lemma resolveOrCreate_at_most_one:
  assumes "length (filter (\<lambda>x. q_userId x = v) (userQRCodes w)) \<le> 1"
  shows "length (filter (\<lambda>x. q_userId x = v) (userQRCodes (snd (resolveOrCreate env w u)))) \<le> 1"
  using assms
  by (auto simp add: resolveOrCreate_def getByUserId_def userQRCode_create_def attempt_def Let_def
      find_None_filter split: option.splits sum.splits)

lemma create_POST_userQRCodes:
  "userQRCodes (snd (create_POST env userId scheduleId w)) = userQRCodes w \<or>
   userQRCodes (snd (create_POST env userId scheduleId w)) =
     userQRCodes (snd (resolveOrCreate env w (str userId)))"
  by (auto simp add: create_POST_def create_catch_def console_error_def reservation_create_def
        attempt_def notify_and_respond_def notification_create_def fetch_sendEmail_def Let_def
      split: option.splits sum.splits prod.splits)


lemma create_POST_snapshots_token:
  assumes "getByUserId env w (str userId) = Inr (Some q)"
    and "fst (fst (create_POST env userId scheduleId w)) = 200"
  shows "userQRCodes (snd (create_POST env userId scheduleId w)) = userQRCodes w
       \<and> map r_qrCode (helmetReservations (snd (create_POST env userId scheduleId w))) =
           map r_qrCode (helmetReservations w) @ [q_qrCodeData q]"
  using assms(2) resolveOrCreate_found [OF assms(1)]
  by (auto simp add: create_POST_def create_catch_def console_error_def reservation_create_def
        attempt_def notify_and_respond_def notification_create_def fetch_sendEmail_def
        bookedReservation_def
      split: option.splits sum.splits if_splits)

subsection \<open>Check-in\<close>

text \<open>
  C1. For a scan request with both fields present, the handler tests its conditions in
  this order and answers with the first that holds, each time with a tagged body under
  status 200: the QR lookup finds nothing (\<open>invalid_qr\<close>); the schedule lookup finds
  nothing (\<open>invalid_schedule\<close>); no reservation is resolved for the user and schedule
  (\<open>no_reservation\<close>); the reservation is checked in (\<open>already_checked_in\<close>); it is
  cancelled (\<open>cancelled\<close>); otherwise, for a booked reservation, \<open>checkIn\<close> is
  called and the answer is \<open>success\<close> with the user, course and location fields, and the
  reservation resolved afterwards is checked in at the time of the request. Each branch
  needs only the lookups before it to have answered. All branches but the last leave the
  world as it was.
\<close>

theorem scan_order:
  assumes "\<not> falsy qrCodeData" and "\<not> falsy scheduleId"
  shows
   "(getByQRCodeData env w (str qrCodeData) = Inr None \<longrightarrow>
       scan_POST env qrCodeData scheduleId w =
         ((200, JObj [(''valid'', JBool False), (''status'', JStr ''invalid_qr''),
                      (''message'', JStr ''Invalid QR code'')]), w))
  \<and> (getByQRCodeData env w (str qrCodeData) = Inr (Some qr) \<and>
     schedule_getById env w (str scheduleId) = Inr None \<longrightarrow>
       scan_POST env qrCodeData scheduleId w =
         ((200, JObj [(''valid'', JBool False), (''status'', JStr ''invalid_schedule''),
                      (''message'', JStr ''Schedule not found'')]), w))
  \<and> (getByQRCodeData env w (str qrCodeData) = Inr (Some qr) \<and>
     schedule_getById env w (str scheduleId) = Inr (Some sch) \<and>
     getByUserAndSchedule env w (q_userId qr) (str scheduleId) = Inr None \<longrightarrow>
       scan_POST env qrCodeData scheduleId w =
         ((200, JObj [(''valid'', JBool False), (''status'', JStr ''no_reservation''),
                      (''message'', JStr ''No reservation found for this class''),
                      (''userName'', JStr [])]), w))
  \<and> (getByQRCodeData env w (str qrCodeData) = Inr (Some qr) \<and>
     schedule_getById env w (str scheduleId) = Inr (Some sch) \<and>
     getByUserAndSchedule env w (q_userId qr) (str scheduleId) = Inr (Some r) \<and>
     r_status r = checked_in \<longrightarrow>
       scan_POST env qrCodeData scheduleId w =
         ((200, JObj ([(''valid'', JBool False), (''status'', JStr ''already_checked_in''),
                       (''message'', JStr ''Already checked in''),
                       (''userName'', JStr (r_userName r))] @ checkinTime_field r)), w))
  \<and> (getByQRCodeData env w (str qrCodeData) = Inr (Some qr) \<and>
     schedule_getById env w (str scheduleId) = Inr (Some sch) \<and>
     getByUserAndSchedule env w (q_userId qr) (str scheduleId) = Inr (Some r) \<and>
     r_status r = cancelled \<longrightarrow>
       scan_POST env qrCodeData scheduleId w =
         ((200, JObj [(''valid'', JBool False), (''status'', JStr ''cancelled''),
                      (''message'', JStr ''Reservation was cancelled''),
                      (''userName'', JStr (r_userName r))]), w))
  \<and> (getByQRCodeData env w (str qrCodeData) = Inr (Some qr) \<and>
     schedule_getById env w (str scheduleId) = Inr (Some sch) \<and>
     getByUserAndSchedule env w (q_userId qr) (str scheduleId) = Inr (Some r) \<and>
     r_status r = booked \<and> checkIn env w (r_id r) = Inr w' \<longrightarrow>
       scan_POST env qrCodeData scheduleId w =
         ((200, JObj [(''valid'', JBool True), (''status'', JStr ''success''),
                      (''message'', JStr (''Welcome '' @ r_userName r @ ''!'')),
                      (''userName'', JStr (r_userName r)),
                      (''userEmail'', JStr (r_userEmail r)),
                      (''courseName'', JStr (r_courseName r)),
                      (''location'', JStr (r_location r)),
                      (''reservationId'', JStr (r_id r))]), w')
       \<and> getByUserAndSchedule env w' (q_userId qr) (str scheduleId) =
           Inr (Some (r\<lparr>r_status := checked_in, r_checkinTime := Some (now env)\<rparr>)))"
proof -
  have t: "\<not> (falsy qrCodeData \<or> falsy scheduleId)" using assms by simp
  have last: "getByUserAndSchedule env w' (q_userId qr) (str scheduleId) =
           Inr (Some (r\<lparr>r_status := checked_in, r_checkinTime := Some (now env)\<rparr>))"
    if a: "getByUserAndSchedule env w (q_userId qr) (str scheduleId) = Inr (Some r)"
      and b: "checkIn env w (r_id r) = Inr w'"
  proof -
    from b have w': "w' = w\<lparr>helmetReservations :=
        map (set_checked_in (now env) (r_id r)) (helmetReservations w)\<rparr>"
      by (simp add: checkIn_def attempt_Inr)
    from a have f: "faults env (Helmet_getByUserAndSchedule (q_userId qr) (str scheduleId)) = None"
      and g: "find (\<lambda>x. r_userId x = q_userId qr \<and> r_scheduleId x = str scheduleId)
                (helmetReservations w) = Some r"
      by (simp_all add: getByUserAndSchedule_def attempt_Inr)
    show ?thesis
      unfolding getByUserAndSchedule_def w'
      by (simp add: attempt_def f find_map_inv [where f = "set_checked_in (now env) (r_id r)"]
            g set_checked_in_def)
  qed
  show ?thesis
    using t last by (simp add: scan_POST_def)
qed


theorem scan_order_witness:
  "fst (scan_POST demo_env (Some ''nope'') (Some ''s1'') demo_world) =
     (200, JObj [(''valid'', JBool False), (''status'', JStr ''invalid_qr''),
                 (''message'', JStr ''Invalid QR code'')])
 \<and> fst (scan_POST demo_env (Some ''USER_u1_1709000000000'') (Some ''s9'') demo_world) =
     (200, JObj [(''valid'', JBool False), (''status'', JStr ''invalid_schedule''),
                 (''message'', JStr ''Schedule not found'')])
 \<and> fst (scan_POST demo_env (Some ''USER_u2_1709000000000'') (Some ''s1'') demo_world) =
     (200, JObj [(''valid'', JBool False), (''status'', JStr ''no_reservation''),
                 (''message'', JStr ''No reservation found for this class''),
                 (''userName'', JStr [])])
 \<and> fst (scan_POST demo_env (Some ''USER_u3_1709000000000'') (Some ''s1'') demo_world) =
     (200, JObj [(''valid'', JBool False), (''status'', JStr ''already_checked_in''),
                 (''message'', JStr ''Already checked in''), (''userName'', JStr ''Cy Sow''),
                 (''checkinTime'', JNum 1710064000000)])
 \<and> fst (scan_POST demo_env (Some ''USER_u4_1709000000000'') (Some ''s1'') demo_world) =
     (200, JObj [(''valid'', JBool False), (''status'', JStr ''cancelled''),
                 (''message'', JStr ''Reservation was cancelled''), (''userName'', JStr ''Dee Ba'')])
 \<and> fst (scan_POST demo_env (Some ''USER_u1_1709000000000'') (Some ''s1'') demo_world) =
     (200, JObj [(''valid'', JBool True), (''status'', JStr ''success''),
                 (''message'', JStr ''Welcome Ada Diop!''), (''userName'', JStr ''Ada Diop''),
                 (''userEmail'', JStr ''u1@example.org''), (''courseName'', JStr ''Afro Dance''),
                 (''location'', JStr ''Studio A''), (''reservationId'', JStr ''r1'')])"
  using
    scan_order [where qrCodeData = "Some ''nope''" and scheduleId = "Some ''s1''"
      and env = demo_env and w = demo_world]
    scan_order [where qrCodeData = "Some ''USER_u1_1709000000000''" and scheduleId = "Some ''s9''"
      and env = demo_env and w = demo_world and qr = "demo_qr ''u1''"]
    scan_order [where qrCodeData = "Some ''USER_u2_1709000000000''" and scheduleId = "Some ''s1''"
      and env = demo_env and w = demo_world and qr = "demo_qr ''u2''" and sch = demo_s1]
    scan_order [where qrCodeData = "Some ''USER_u3_1709000000000''" and scheduleId = "Some ''s1''"
      and env = demo_env and w = demo_world and qr = "demo_qr ''u3''" and sch = demo_s1
      and r = "demo_reservation ''r3'' ''u3'' ''Cy Sow'' checked_in (Some 1710064000000)"]
    scan_order [where qrCodeData = "Some ''USER_u4_1709000000000''" and scheduleId = "Some ''s1''"
      and env = demo_env and w = demo_world and qr = "demo_qr ''u4''" and sch = demo_s1
      and r = "demo_reservation ''r4'' ''u4'' ''Dee Ba'' cancelled None"]
    scan_order [where qrCodeData = "Some ''USER_u1_1709000000000''" and scheduleId = "Some ''s1''"
      and env = demo_env and w = demo_world and qr = "demo_qr ''u1''" and sch = demo_s1
      and r = "demo_reservation ''r1'' ''u1'' ''Ada Diop'' booked None"
      and w' = "demo_world\<lparr>helmetReservations :=
         map (set_checked_in (now demo_env) ''r1'') (helmetReservations demo_world)\<rparr>"]
  by (simp add: svc_defs demo_defs checkinTime_field_def)

text \<open>
  C4. When the reservation resolved for the scanned user and schedule is already checked
  in, the handler answers \<open>already_checked_in\<close> with \<open>valid = false\<close> and the stored
  \<open>checkinTime\<close>, and the world after the request is the world before it: nothing is
  written, \<open>checkIn\<close> is not called. Scanning again, at any later clock reading, gives
  the same answer with the same \<open>checkinTime\<close>.
\<close>

theorem scan_again_already_checked_in:
  assumes "\<not> falsy qrCodeData" and "\<not> falsy scheduleId"
    and "getByQRCodeData env w (str qrCodeData) = Inr (Some qr)"
    and "schedule_getById env w (str scheduleId) = Inr (Some sch)"
    and "getByUserAndSchedule env w (q_userId qr) (str scheduleId) = Inr (Some r)"
    and "r_status r = checked_in"
    and "faults env' = faults env"
  shows "scan_POST env qrCodeData scheduleId w =
           ((200, JObj ([(''valid'', JBool False), (''status'', JStr ''already_checked_in''),
                         (''message'', JStr ''Already checked in''),
                         (''userName'', JStr (r_userName r))] @ checkinTime_field r)), w)
       \<and> scan_POST env' qrCodeData scheduleId (snd (scan_POST env qrCodeData scheduleId w)) =
           ((200, JObj ([(''valid'', JBool False), (''status'', JStr ''already_checked_in''),
                         (''message'', JStr ''Already checked in''),
                         (''userName'', JStr (r_userName r))] @ checkinTime_field r)), w)"
proof -
  have 1: "getByQRCodeData env' w (str qrCodeData) = Inr (Some qr)"
    and 2: "schedule_getById env' w (str scheduleId) = Inr (Some sch)"
    and 3: "getByUserAndSchedule env' w (q_userId qr) (str scheduleId) = Inr (Some r)"
    using assms(3-5,7)
    by (simp_all add: getByQRCodeData_def schedule_getById_def getByUserAndSchedule_def attempt_def)
  show ?thesis
    using assms(1-6) 1 2 3 by (simp add: scan_POST_def)
qed

theorem scan_again_already_checked_in_witness:
  "scan_POST demo_env (Some ''USER_u3_1709000000000'') (Some ''s1'') demo_world =
     ((200, JObj [(''valid'', JBool False), (''status'', JStr ''already_checked_in''),
                  (''message'', JStr ''Already checked in''), (''userName'', JStr ''Cy Sow''),
                  (''checkinTime'', JNum 1710064000000)]), demo_world)
 \<and> scan_POST (demo_env\<lparr>now := 1710099999999\<rparr>) (Some ''USER_u3_1709000000000'') (Some ''s1'')
       (snd (scan_POST demo_env (Some ''USER_u3_1709000000000'') (Some ''s1'') demo_world)) =
     ((200, JObj [(''valid'', JBool False), (''status'', JStr ''already_checked_in''),
                  (''message'', JStr ''Already checked in''), (''userName'', JStr ''Cy Sow''),
                  (''checkinTime'', JNum 1710064000000)]), demo_world)"
proof -
  have h: "\<not> falsy (Some ''USER_u3_1709000000000'')" "\<not> falsy (Some ''s1'')"
    "getByQRCodeData demo_env demo_world (str (Some ''USER_u3_1709000000000'')) =
       Inr (Some (demo_qr ''u3''))"
    "schedule_getById demo_env demo_world (str (Some ''s1'')) = Inr (Some demo_s1)"
    "getByUserAndSchedule demo_env demo_world (q_userId (demo_qr ''u3'')) (str (Some ''s1'')) =
       Inr (Some (demo_reservation ''r3'' ''u3'' ''Cy Sow'' checked_in (Some 1710064000000)))"
    "r_status (demo_reservation ''r3'' ''u3'' ''Cy Sow'' checked_in (Some 1710064000000)) = checked_in"
    "faults (demo_env\<lparr>now := 1710099999999\<rparr>) = faults demo_env"
    by (simp_all add: svc_defs demo_defs)
  show ?thesis
    using scan_again_already_checked_in [OF h]
    by (auto simp add: checkinTime_field_def demo_reservation_def)
qed

subsection \<open>Cancellation\<close>

text \<open>
  C3. For a request with a reservation id: if the reservation found is checked in, the
  answer is 400 and the world is unchanged, whatever its other fields; if it is already
  cancelled and the \<open>cancel\<close> call answers, the answer is still the success response and
  the reservation found afterwards is the same; if no reservation has that id, the answer
  is 404 and the world is unchanged.
\<close>

theorem cancel_rules:
  assumes "\<not> falsy reservationId"
  shows
   "(reservation_getById env w (str reservationId) = Inr (Some r) \<and> r_status r = checked_in \<longrightarrow>
       reservation_DELETE env reservationId w =
         ((400, JObj [(''error'',
             JStr ''Cannot cancel a reservation that has already been checked in'')]), w))
  \<and> (reservation_getById env w (str reservationId) = Inr (Some r) \<and> r_status r = cancelled \<and>
     cancel env w (str reservationId) = Inr w' \<longrightarrow>
       reservation_DELETE env reservationId w =
         ((200, JObj [(''success'', JBool True),
                      (''message'', JStr ''Reservation cancelled successfully'')]), w')
       \<and> reservation_getById env w' (str reservationId) = Inr (Some r))
  \<and> (reservation_getById env w (str reservationId) = Inr None \<longrightarrow>
       reservation_DELETE env reservationId w =
         ((404, JObj [(''error'', JStr ''Reservation not found'')]), w))"
proof -
  have still: "reservation_getById env w' (str reservationId) = Inr (Some r)"
    if a: "reservation_getById env w (str reservationId) = Inr (Some r)"
      and b: "r_status r = cancelled"
      and c: "cancel env w (str reservationId) = Inr w'"
  proof -
    from c have w': "w' = w\<lparr>helmetReservations :=
        map (set_cancelled (str reservationId)) (helmetReservations w)\<rparr>"
      by (simp add: cancel_def attempt_Inr)
    from a have f: "faults env (Helmet_getById (str reservationId)) = None"
      and g: "find (\<lambda>x. r_id x = str reservationId) (helmetReservations w) = Some r"
      by (simp_all add: reservation_getById_def attempt_Inr)
    have "set_cancelled (str reservationId) r = r"
      using b by (simp add: set_cancelled_def)
    then show ?thesis
      unfolding reservation_getById_def w'
      by (simp add: attempt_def f find_map_inv [where f = "set_cancelled (str reservationId)"]
            g set_cancelled_def)
  qed
  show ?thesis
    using assms still by (simp add: reservation_DELETE_def)
qed

theorem cancel_rules_witness:
  "reservation_DELETE demo_env (Some ''r3'') demo_world =
     ((400, JObj [(''error'',
         JStr ''Cannot cancel a reservation that has already been checked in'')]), demo_world)
 \<and> reservation_DELETE demo_env (Some ''r4'') demo_world =
     ((200, JObj [(''success'', JBool True),
                  (''message'', JStr ''Reservation cancelled successfully'')]), demo_world)
 \<and> reservation_DELETE demo_env (Some ''r7'') demo_world =
     ((404, JObj [(''error'', JStr ''Reservation not found'')]), demo_world)"
proof -
  have a: "reservation_getById demo_env demo_world (str (Some ''r3'')) =
       Inr (Some (demo_reservation ''r3'' ''u3'' ''Cy Sow'' checked_in (Some 1710064000000)))"
    and b: "reservation_getById demo_env demo_world (str (Some ''r4'')) =
       Inr (Some (demo_reservation ''r4'' ''u4'' ''Dee Ba'' cancelled None))"
    and c: "cancel demo_env demo_world (str (Some ''r4'')) = Inr demo_world"
    and d: "reservation_getById demo_env demo_world (str (Some ''r7'')) = Inr None"
    by (simp_all add: svc_defs demo_defs set_cancelled_def)
  have n: "\<not> falsy (Some ''r3'')" "\<not> falsy (Some ''r4'')" "\<not> falsy (Some ''r7'')"
    by (simp_all add: falsy_def)
  show ?thesis
    using cancel_rules [OF n(1), where env = demo_env and w = demo_world
        and r = "demo_reservation ''r3'' ''u3'' ''Cy Sow'' checked_in (Some 1710064000000)"]
      cancel_rules [OF n(2), where env = demo_env and w = demo_world and w' = demo_world
        and r = "demo_reservation ''r4'' ''u4'' ''Dee Ba'' cancelled None"]
      cancel_rules [OF n(3), where env = demo_env and w = demo_world]
      a b c d
    by (simp add: demo_reservation_def)
qed

subsection \<open>Creation\<close>






text \<open>
  C7, as stated, fails: the notification is created outside any local \<open>try\<close>. In the
  example world, with the notification call throwing, the reservation \<open>r9\<close> is
  persisted as booked and the answer is 500 with the message of the exception.
\<close>

theorem notification_failure_propagates:
  "fst (create_POST
          (demo_env_failing (Notification_create ''u2'') (Error ''notification store unavailable''))
          (Some ''u2'') (Some ''s1'') demo_world) =
     (500, JObj [(''error'', JStr ''notification store unavailable'')])
 \<and> map r_id (helmetReservations (snd (create_POST
          (demo_env_failing (Notification_create ''u2'') (Error ''notification store unavailable''))
          (Some ''u2'') (Some ''s1'') demo_world))) = [''r1'', ''r3'', ''r4'', ''r9'']
 \<and> map r_status (helmetReservations (snd (create_POST
          (demo_env_failing (Notification_create ''u2'') (Error ''notification store unavailable''))
          (Some ''u2'') (Some ''s1'') demo_world))) = [booked, checked_in, cancelled, booked]"
  by (simp add: create_POST_def create_defs svc_defs demo_defs)

text \<open>
  C7, amended. Once the reservation is persisted and the notification created, a failure
  of the email request is caught and printed: the answer is the success response with the
  reservation id, the reservation stays, no email is recorded as sent, and the console
  gains the line \<open>Error sending email:\<close> with the exception.
\<close>

theorem email_failure_swallowed:
  assumes "\<not> falsy userId" and "\<not> falsy scheduleId"
    and "user_getById env w (str userId) = Inr (Some usr)"
    and "schedule_getById env w (str scheduleId) = Inr (Some sch)"
    and "getByUserAndSchedule env w (str userId) (str scheduleId) = Inr existing"
    and "existing = None \<or> existing = Some r \<and> r_status r = cancelled"
    and "resolveOrCreate env w (str userId) = (Inr (Some q), w1)"
    and "reservation_create env w1
           (bookedReservation env (str userId) (str scheduleId) usr sch q) = Inr (rid, w2)"
    and "asDate ''schedule.startTime'' (s_startTime sch) = Inr classDate"
    and "asDate ''schedule.endTime'' (s_endTime sch) = Inr endTime"
    and "faults env (Notification_create (str userId)) = None"
    and "faults env Fetch_sendEmail = Some emailError"
  shows "fst (create_POST env userId scheduleId w) =
           (200, JObj [(''success'', JBool True), (''reservationId'', JStr rid),
                       (''qrCode'', JStr (q_qrCodeImage q)),
                       (''message'', JStr ''Helmet reservation created successfully'')])
       \<and> helmetReservations (snd (create_POST env userId scheduleId w)) = helmetReservations w2
       \<and> sentEmails (snd (create_POST env userId scheduleId w)) = sentEmails w
       \<and> console (snd (create_POST env userId scheduleId w)) =
           console w @ [ConsoleError ''Error sending email:'' (Some emailError)]"
proof -
  have c: "console w1 = console w" and m: "sentEmails w1 = sentEmails w"
    using resolveOrCreate_console [of env w "str userId"]
      resolveOrCreate_sentEmails [of env w "str userId"] assms(7) by simp_all
  from assms(8) have w2: "console w2 = console w1" "sentEmails w2 = sentEmails w1"
    by (auto simp add: reservation_create_def attempt_Inr)
  show ?thesis
    using assms c m w2
    by (auto simp add: create_POST_def notify_and_respond_def notification_create_def
          fetch_sendEmail_def attempt_def console_error_def)
qed

theorem email_failure_swallowed_witness:
  "fst (create_POST (demo_env_failing Fetch_sendEmail (Error ''fetch failed''))
          (Some ''u2'') (Some ''s1'') demo_world) =
     (200, JObj [(''success'', JBool True), (''reservationId'', JStr ''r9''),
                 (''qrCode'', JStr ''data:image/png;u2''),
                 (''message'', JStr ''Helmet reservation created successfully'')])
 \<and> sentEmails (snd (create_POST (demo_env_failing Fetch_sendEmail (Error ''fetch failed''))
          (Some ''u2'') (Some ''s1'') demo_world)) = []
 \<and> console (snd (create_POST (demo_env_failing Fetch_sendEmail (Error ''fetch failed''))
          (Some ''u2'') (Some ''s1'') demo_world)) =
     [ConsoleError ''Error sending email:'' (Some (Error ''fetch failed''))]"
proof -
  let ?env = "demo_env_failing Fetch_sendEmail (Error ''fetch failed'')"
  let ?usr = "\<lparr>u_id = ''u2'', u_firstName = ''Bob'', u_lastName = ''Kane'',
                u_email = ''bob@example.org''\<rparr>"
  let ?b = "bookedReservation ?env (str (Some ''u2'')) (str (Some ''s1'')) ?usr demo_s1
              (demo_qr ''u2'')"
  have h: "\<not> falsy (Some ''u2'')" "\<not> falsy (Some ''s1'')"
    "user_getById ?env demo_world (str (Some ''u2'')) = Inr (Some ?usr)"
    "schedule_getById ?env demo_world (str (Some ''s1'')) = Inr (Some demo_s1)"
    "getByUserAndSchedule ?env demo_world (str (Some ''u2'')) (str (Some ''s1'')) = Inr None"
    "None = None \<or> None = Some (demo_reservation ''r1'' ''u1'' ''Ada Diop'' booked None) \<and>
       r_status (demo_reservation ''r1'' ''u1'' ''Ada Diop'' booked None) = cancelled"
    "resolveOrCreate ?env demo_world (str (Some ''u2'')) = (Inr (Some (demo_qr ''u2'')), demo_world)"
    "reservation_create ?env demo_world ?b =
       Inr (''r9'', demo_world\<lparr>helmetReservations :=
                       helmetReservations demo_world @ [?b\<lparr>r_id := ''r9''\<rparr>]\<rparr>)"
    "asDate ''schedule.startTime'' (s_startTime demo_s1) = Inr (Some 1710064800000)"
    "asDate ''schedule.endTime'' (s_endTime demo_s1) = Inr (Some 1710068400000)"
    "faults ?env (Notification_create (str (Some ''u2''))) = None"
    "faults ?env Fetch_sendEmail = Some (Error ''fetch failed'')"
    by (simp_all add: create_defs svc_defs demo_defs)
  show ?thesis
    using email_failure_swallowed [OF h]
    by (simp add: demo_defs)
qed

text \<open>
  C8. Resolving the QR identity of a user returns the stored identity and writes nothing
  when one exists; when none exists (and rendering and storing answer) it stores one
  whose token is \<open>USER_<userId>_<now>\<close> and returns it; resolving again after a
  successful resolution, at any clock reading, returns the same identity and writes
  nothing. The creation handler never takes the number of identities of any user above
  one, and a successful booking by a user who has an identity leaves the identities as
  they were and snapshots that identity's token into the new reservation. (Requests are
  taken one at a time.)
\<close>

theorem qr_identity_idempotent:
  "(getByUserId env w u = Inr (Some q) \<longrightarrow> resolveOrCreate env w u = (Inr (Some q), w))
 \<and> (getByUserId env w u = Inr None \<and>
    faults env (QRCode_toDataURL (''USER_'' @ u @ ''_'' @ string_of_int (now env))) = None \<and>
    faults env (UserQR_create u) = None \<longrightarrow>
      resolveOrCreate env w u =
        (Inr (Some \<lparr>q_userId = u,
                    q_qrCodeData = ''USER_'' @ u @ ''_'' @ string_of_int (now env),
                    q_qrCodeImage =
                      toDataURL env (''USER_'' @ u @ ''_'' @ string_of_int (now env))\<rparr>),
         w\<lparr>userQRCodes := userQRCodes w @
            [\<lparr>q_userId = u,
              q_qrCodeData = ''USER_'' @ u @ ''_'' @ string_of_int (now env),
              q_qrCodeImage =
                toDataURL env (''USER_'' @ u @ ''_'' @ string_of_int (now env))\<rparr>]\<rparr>))
 \<and> (resolveOrCreate env w u = (Inr (Some q1), w1) \<and>
    faults env' (UserQR_getByUserId u) = None \<longrightarrow>
      resolveOrCreate env' w1 u = (Inr (Some q1), w1))
 \<and> (length (filter (\<lambda>x. q_userId x = v) (userQRCodes w)) \<le> 1 \<longrightarrow>
      length (filter (\<lambda>x. q_userId x = v)
        (userQRCodes (snd (create_POST env userId scheduleId w)))) \<le> 1)
 \<and> (getByUserId env w (str userId) = Inr (Some q2) \<and>
    fst (fst (create_POST env userId scheduleId w)) = 200 \<longrightarrow>
      userQRCodes (snd (create_POST env userId scheduleId w)) = userQRCodes w \<and>
      map r_qrCode (helmetReservations (snd (create_POST env userId scheduleId w))) =
        map r_qrCode (helmetReservations w) @ [q_qrCodeData q2])"
proof (intro conjI impI)
  show "resolveOrCreate env w u = (Inr (Some q), w)" if "getByUserId env w u = Inr (Some q)"
    using that by (rule resolveOrCreate_found)
next
  assume "getByUserId env w u = Inr None \<and>
    faults env (QRCode_toDataURL (''USER_'' @ u @ ''_'' @ string_of_int (now env))) = None \<and>
    faults env (UserQR_create u) = None"
  then show "resolveOrCreate env w u =
        (Inr (Some \<lparr>q_userId = u,
                    q_qrCodeData = ''USER_'' @ u @ ''_'' @ string_of_int (now env),
                    q_qrCodeImage =
                      toDataURL env (''USER_'' @ u @ ''_'' @ string_of_int (now env))\<rparr>),
         w\<lparr>userQRCodes := userQRCodes w @
            [\<lparr>q_userId = u,
              q_qrCodeData = ''USER_'' @ u @ ''_'' @ string_of_int (now env),
              q_qrCodeImage =
                toDataURL env (''USER_'' @ u @ ''_'' @ string_of_int (now env))\<rparr>]\<rparr>)"
    by (simp add: resolveOrCreate_creates)
next
  assume "resolveOrCreate env w u = (Inr (Some q1), w1) \<and>
    faults env' (UserQR_getByUserId u) = None"
  then show "resolveOrCreate env' w1 u = (Inr (Some q1), w1)"
    using resolveOrCreate_again by blast
next
  assume a: "length (filter (\<lambda>x. q_userId x = v) (userQRCodes w)) \<le> 1"
  show "length (filter (\<lambda>x. q_userId x = v)
        (userQRCodes (snd (create_POST env userId scheduleId w)))) \<le> 1"
    using create_POST_userQRCodes [of env userId scheduleId w]
      resolveOrCreate_at_most_one [OF a, of env "str userId"] a
    by auto
next
  assume b: "getByUserId env w (str userId) = Inr (Some q2) \<and>
    fst (fst (create_POST env userId scheduleId w)) = 200"
  then show "userQRCodes (snd (create_POST env userId scheduleId w)) = userQRCodes w"
    using create_POST_snapshots_token by blast
  from b show "map r_qrCode (helmetReservations (snd (create_POST env userId scheduleId w))) =
        map r_qrCode (helmetReservations w) @ [q_qrCodeData q2]"
    using create_POST_snapshots_token by blast
qed

theorem qr_identity_idempotent_witness:
  "resolveOrCreate demo_env demo_world ''u1'' = (Inr (Some (demo_qr ''u1'')), demo_world)
 \<and> fst (resolveOrCreate demo_env demo_world ''u5'') =
     Inr (Some \<lparr>q_userId = ''u5'', q_qrCodeData = ''USER_u5_1710000000000'',
                q_qrCodeImage = ''data:image/png;USER_u5_1710000000000''\<rparr>)
 \<and> fst (resolveOrCreate (demo_env\<lparr>now := 1710099999999\<rparr>)
        (snd (resolveOrCreate demo_env demo_world ''u5'')) ''u5'') =
     Inr (Some \<lparr>q_userId = ''u5'', q_qrCodeData = ''USER_u5_1710000000000'',
                q_qrCodeImage = ''data:image/png;USER_u5_1710000000000''\<rparr>)
 \<and> length (filter (\<lambda>x. q_userId x = ''u5'')
       (userQRCodes (snd (create_POST demo_env (Some ''u5'') (Some ''s1'') demo_world)))) \<le> 1
 \<and> map r_qrCode (helmetReservations
       (snd (create_POST demo_env (Some ''u2'') (Some ''s1'') demo_world))) =
     map r_qrCode (helmetReservations demo_world) @ [''USER_u2_1709000000000'']"
proof -
  let ?q5 = "\<lparr>q_userId = ''u5'', q_qrCodeData = ''USER_u5_1710000000000'',
                q_qrCodeImage = ''data:image/png;USER_u5_1710000000000''\<rparr>"
  let ?w5 = "demo_world\<lparr>userQRCodes := userQRCodes demo_world @ [?q5]\<rparr>"
  have "string_of_int 1710000000000 = ''1710000000000''"
    by (simp add: string_of_int_def string_of_nat.simps digit_def)
  then have tok:
    "''USER_'' @ ''u5'' @ ''_'' @ string_of_int (now demo_env) = ''USER_u5_1710000000000''"
    by (simp add: demo_defs)
  have a: "getByUserId demo_env demo_world ''u1'' = Inr (Some (demo_qr ''u1''))"
    and b: "getByUserId demo_env demo_world ''u5'' = Inr None"
      "faults demo_env (QRCode_toDataURL (''USER_'' @ ''u5'' @ ''_'' @ string_of_int (now demo_env)))
         = None"
      "faults demo_env (UserQR_create ''u5'') = None"
    and c: "faults (demo_env\<lparr>now := 1710099999999\<rparr>) (UserQR_getByUserId ''u5'') = None"
    and d: "length (filter (\<lambda>x. q_userId x = ''u5'') (userQRCodes demo_world)) \<le> 1"
    and e: "getByUserId demo_env demo_world (str (Some ''u2'')) = Inr (Some (demo_qr ''u2''))"
      "fst (fst (create_POST demo_env (Some ''u2'') (Some ''s1'') demo_world)) = 200"
    by (simp_all add: create_POST_def create_defs svc_defs demo_defs)
  note T = qr_identity_idempotent [where env = demo_env and w = demo_world]
  have 1: "resolveOrCreate demo_env demo_world ''u1'' = (Inr (Some (demo_qr ''u1'')), demo_world)"
    using T [where u = "''u1''" and q = "demo_qr ''u1''"] a by blast
  have 2: "resolveOrCreate demo_env demo_world ''u5'' = (Inr (Some ?q5), ?w5)"
    using T [where u = "''u5''"] b unfolding tok by (simp add: demo_defs)
  have 3: "resolveOrCreate (demo_env\<lparr>now := 1710099999999\<rparr>) ?w5 ''u5'' = (Inr (Some ?q5), ?w5)"
    using T [where u = "''u5''" and ?q1.0 = ?q5 and ?w1.0 = ?w5
        and env' = "demo_env\<lparr>now := 1710099999999\<rparr>"] 2 c by blast
  have 4: "length (filter (\<lambda>x. q_userId x = ''u5'')
       (userQRCodes (snd (create_POST demo_env (Some ''u5'') (Some ''s1'') demo_world)))) \<le> 1"
    using T [where v = "''u5''" and userId = "Some ''u5''" and scheduleId = "Some ''s1''"] d
    by blast
  have 5: "map r_qrCode (helmetReservations
       (snd (create_POST demo_env (Some ''u2'') (Some ''s1'') demo_world))) =
     map r_qrCode (helmetReservations demo_world) @ [q_qrCodeData (demo_qr ''u2'')]"
    using T [where userId = "Some ''u2''" and scheduleId = "Some ''s1''" and ?q2.0 = "demo_qr ''u2''"]
      e by blast
  show ?thesis
    using 1 2 3 4 5 by (simp add: demo_qr_def)
qed

subsection \<open>Bulk schedule deletion\<close>

text \<open>
  C6. For a bulk deletion request with a coach and a course id, once the schedules are
  loaded: if the course found has another coach, the answer is 403; if no course has
  that id, the answer is 404; in both cases the world after the request is the world
  before it, so no schedule is deleted and no reservation cancelled.
\<close>

theorem bulk_delete_foreign_course:
  assumes "\<not> falsy coachId" and "truthy courseId"
    and "faults env GetDocs_courseSchedules = None"
  shows
   "(course_getById env w (str courseId) = Inr (Some c) \<and> c_coachId c \<noteq> str coachId \<longrightarrow>
       delete_schedules_POST env courseId startDate endDate coachId w =
         ((403, JObj [(''error'',
             JStr ''You do not have permission to delete schedules for this course'')]), w))
  \<and> (course_getById env w (str courseId) = Inr None \<longrightarrow>
       delete_schedules_POST env courseId startDate endDate coachId w =
         ((404, JObj [(''error'', JStr ''Course not found'')]), w))"
proof -
  have nf: "\<not> falsy courseId"
    using assms(2) by (cases courseId) (simp_all add: falsy_def truthy_def)
  show ?thesis
    using assms nf
    by (simp add: delete_schedules_POST_def matchSchedules_def getDocs_courseSchedules_def
          attempt_def filterByCourseOrCoach_def)
qed

theorem bulk_delete_foreign_course_witness:
  "delete_schedules_POST demo_env (Some ''c2'') None None (Some ''coach1'') demo_world =
     ((403, JObj [(''error'',
         JStr ''You do not have permission to delete schedules for this course'')]), demo_world)
 \<and> delete_schedules_POST demo_env (Some ''c9'') None None (Some ''coach1'') demo_world =
     ((404, JObj [(''error'', JStr ''Course not found'')]), demo_world)"
proof -
  have h: "\<not> falsy (Some ''coach1'')" "truthy (Some ''c2'')" "truthy (Some ''c9'')"
    "faults demo_env GetDocs_courseSchedules = None"
    by (simp_all add: falsy_def truthy_def demo_defs)
  have a: "course_getById demo_env demo_world (str (Some ''c2'')) =
       Inr (Some \<lparr>c_id = ''c2'', c_coachId = ''coach2''\<rparr>)"
    and b: "course_getById demo_env demo_world (str (Some ''c9'')) = Inr None"
    by (simp_all add: course_getById_def svc_defs demo_defs)
  show ?thesis
    using bulk_delete_foreign_course [OF h(1) h(2) h(4), where w = demo_world
        and c = "\<lparr>c_id = ''c2'', c_coachId = ''coach2''\<rparr>"]
      bulk_delete_foreign_course [OF h(1) h(3) h(4), where w = demo_world]
      a b
    by (simp add: str_def)
qed

text \<open>Facts about the loop of step 4.\<close>

lemma deleteDoc_Inr:
  "deleteDoc env w i = Inr w' \<longleftrightarrow>
     faults env (DeleteDoc_courseSchedules i) = None \<and>
     w' = w\<lparr>courseSchedules := filter (\<lambda>s. s_id s \<noteq> i) (courseSchedules w)\<rparr>"
  by (auto simp add: deleteDoc_def attempt_Inr)

lemma deleteDoc_Inl:
  "deleteDoc env w i = Inl e \<longleftrightarrow> faults env (DeleteDoc_courseSchedules i) = Some e"
  by (simp add: deleteDoc_def attempt_Inl)

lemma cancel_keeps:
  "cancel env w i = Inr w' \<Longrightarrow>
     courseSchedules w' = courseSchedules w \<and> console w' = console w"
  by (auto simp add: cancel_def attempt_Inr)

lemma cancelEach_keeps:
  "cancelEach env rs w n = (r, w', n') \<Longrightarrow>
     courseSchedules w' = courseSchedules w \<and> console w' = console w"
proof (induction rs arbitrary: w n)
  case Nil
  then show ?case by simp
next
  case (Cons a rs)
  then show ?case
    by (auto split: if_splits sum.splits dest!: cancel_keeps)
qed

lemma cancelReservations_schedules:
  "courseSchedules (fst (cancelReservations env sch w n)) = courseSchedules w"
  by (auto simp add: cancelReservations_def console_error_def
      split: sum.splits prod.splits option.splits dest!: cancelEach_keeps)

lemma deleteEach_counts:
  "deletedCount (deleteEach env ss p) = deletedCount p + length (filter (deletable env) ss)
 \<and> errors (deleteEach env ss p) =
     errors p @ map (deletion_error env) (filter (\<lambda>s. \<not> deletable env s) ss)"
proof (induction ss arbitrary: p)
  case Nil
  then show ?case by simp
next
  case (Cons sch rest)
  obtain w1 n1 where c: "cancelReservations env sch (p_world p) (cancelledReservationsCount p) = (w1, n1)"
    by (cases "cancelReservations env sch (p_world p) (cancelledReservationsCount p)")
  show ?case
  proof (cases "deleteDoc env w1 (s_id sch)")
    case (Inl e)
    then have "\<not> deletable env sch" and "deletion_error env sch =
        ''Error deleting schedule '' @ s_id sch @ '': '' @ message_of e"
      by (simp_all add: deleteDoc_Inl deletable_def deletion_error_def)
    then show ?thesis
      using c Inl Cons.IH by (simp add: Let_def)
  next
    case (Inr w2)
    then have "deletable env sch"
      by (simp add: deleteDoc_Inr deletable_def)
    then show ?thesis
      using c Inr Cons.IH by simp
  qed
qed

lemma deleteEach_schedules:
  "courseSchedules (p_world (deleteEach env ss p)) =
     filter (\<lambda>c. s_id c \<notin> s_id ` set (filter (deletable env) ss)) (courseSchedules (p_world p))"
proof (induction ss arbitrary: p)
  case Nil
  then show ?case by simp
next
  case (Cons sch rest)
  obtain w1 n1 where c: "cancelReservations env sch (p_world p) (cancelledReservationsCount p) = (w1, n1)"
    by (cases "cancelReservations env sch (p_world p) (cancelledReservationsCount p)")
  then have w1: "courseSchedules w1 = courseSchedules (p_world p)"
    using cancelReservations_schedules [of env sch "p_world p" "cancelledReservationsCount p"]
    by simp
  show ?case
  proof (cases "deleteDoc env w1 (s_id sch)")
    case (Inl e)
    then have "\<not> deletable env sch"
      by (simp add: deleteDoc_Inl deletable_def)
    then show ?thesis
      using c Inl Cons.IH w1 by (simp add: Let_def console_error_def)
  next
    case (Inr w2)
    then have d: "deletable env sch"
      and w2: "courseSchedules w2 = filter (\<lambda>s. s_id s \<noteq> s_id sch) (courseSchedules w1)"
      by (simp_all add: deleteDoc_Inr deletable_def)
    show ?thesis
      using c Inr Cons.IH d w1 w2 by (auto intro: filter_cong)
  qed
qed


lemma field_summary:
  "field ''success'' (snd (delete_summary p)) = Some (JBool True)"
  "field ''deletedCount'' (snd (delete_summary p)) = Some (JNum (int (deletedCount p)))"
  "field ''errors'' (snd (delete_summary p)) =
     (if errors p = [] then None else Some (JArr (map JStr (errors p))))"
  "fst (delete_summary p) = 200"
  by (simp_all add: delete_summary_def field_def)

lemma delete_schedules_POST_loop:
  assumes "\<not> falsy coachId" and "truthy courseId \<or> truthy startDate \<or> truthy endDate"
    and "matchSchedules env courseId startDate endDate coachId w = (Inr (Inr ss), w0)"
    and "ss \<noteq> []"
  shows "delete_schedules_POST env courseId startDate endDate coachId w =
     (delete_summary (deleteEach env ss
        \<lparr>p_world = w0, deletedCount = 0, cancelledReservationsCount = 0, errors = []\<rparr>),
      p_world (deleteEach env ss
        \<lparr>p_world = w0, deletedCount = 0, cancelledReservationsCount = 0, errors = []\<rparr>))"
  using assms by (auto simp add: delete_schedules_POST_def falsy_truthy Let_def)

lemma only_failure:
  assumes "distinct (map s_id ss)" and "x \<in> set ss"
    and "faults env (DeleteDoc_courseSchedules (s_id x)) = Some e"
    and "\<forall>y\<in>set ss. y \<noteq> x \<longrightarrow> faults env (DeleteDoc_courseSchedules (s_id y)) = None"
  shows "filter (\<lambda>s. \<not> deletable env s) ss = [x]"
    and "length (filter (deletable env) ss) = length ss - 1"
    and "set (filter (deletable env) ss) = set ss - {x}"
proof -
  have d: "distinct ss" using assms(1) by (rule distinct_map [THEN iffD1, THEN conjunct1])
  have eq: "(\<not> deletable env s) = (s = x)" if "s \<in> set ss" for s
    using that assms(3,4) by (auto simp add: deletable_def)
  then have "filter (\<lambda>s. \<not> deletable env s) ss = filter (\<lambda>s. s = x) ss"
    by (intro filter_cong) auto
  also have "\<dots> = [x]"
    using d assms(2) by (induction ss) (auto simp add: filter_empty_conv)
  finally show 1: "filter (\<lambda>s. \<not> deletable env s) ss = [x]" .
  have "length (filter (deletable env) ss) + length (filter (\<lambda>s. \<not> deletable env s) ss) = length ss"
    by (rule sum_length_filter_compl)
  then show "length (filter (deletable env) ss) = length ss - 1"
    using 1 by simp
  show "set (filter (deletable env) ss) = set ss - {x}"
    using eq by auto
qed

lemma cancel_keeps_stuck:
  assumes "cancel env w i = Inr w'" and "r \<in> set (helmetReservations w)"
    and "faults env (Helmet_cancel (r_id r)) = Some e"
  shows "r \<in> set (helmetReservations w')"
proof -
  from assms(1) have f: "faults env (Helmet_cancel i) = None"
    and w': "helmetReservations w' = map (set_cancelled i) (helmetReservations w)"
    by (auto simp add: cancel_def attempt_Inr)
  from f assms(3) have "r_id r \<noteq> i" by auto
  then have "set_cancelled i r = r" by (simp add: set_cancelled_def)
  then show ?thesis
    using assms(2) w' by (metis image_eqI list.set_map)
qed

lemma cancelEach_keeps_stuck:
  "cancelEach env rs w n = (res, w', n') \<Longrightarrow> r \<in> set (helmetReservations w) \<Longrightarrow>
     faults env (Helmet_cancel (r_id r)) = Some e \<Longrightarrow> r \<in> set (helmetReservations w')"
proof (induction rs arbitrary: w n)
  case Nil
  then show ?case by simp
next
  case (Cons a rs)
  show ?case
  proof (cases "r_status a \<noteq> checked_in \<and> r_status a \<noteq> cancelled")
    case True
    show ?thesis
    proof (cases "cancel env w (r_id a)")
      case (Inl x)
      then show ?thesis using Cons.prems True by simp
    next
      case (Inr w1)
      then have "r \<in> set (helmetReservations w1)"
        using cancel_keeps_stuck Cons.prems(2,3) by blast
      then show ?thesis
        using Cons.IH [of w1 "Suc n"] Cons.prems True Inr by simp
    qed
  next
    case False
    then show ?thesis
      using Cons.IH [of w n] Cons.prems by auto
  qed
qed

lemma cancelReservations_keeps_stuck:
  assumes "r \<in> set (helmetReservations w)" and "faults env (Helmet_cancel (r_id r)) = Some e"
  shows "r \<in> set (helmetReservations (fst (cancelReservations env sch w n)))"
proof (cases "getByScheduleId env w (s_id sch)")
  case (Inl x)
  then show ?thesis
    using assms by (simp add: cancelReservations_def console_error_def)
next
  case (Inr rs)
  obtain res w' n' where c: "cancelEach env rs w n = (res, w', n')"
    by (cases "cancelEach env rs w n")
  then have "r \<in> set (helmetReservations w')"
    using cancelEach_keeps_stuck assms by blast
  then show ?thesis
    using Inr c by (cases res) (simp_all add: cancelReservations_def console_error_def)
qed

lemma cancelReservations_console_mono:
  "set (console w) \<subseteq> set (console (fst (cancelReservations env sch w n)))"
  by (auto simp add: cancelReservations_def console_error_def
      split: sum.splits prod.splits option.splits dest!: cancelEach_keeps)

lemma deleteEach_console_mono:
  "set (console (p_world p)) \<subseteq> set (console (p_world (deleteEach env ss p)))"
proof (induction ss arbitrary: p)
  case Nil
  then show ?case by simp
next
  case (Cons sch rest)
  obtain w1 n1 where c: "cancelReservations env sch (p_world p) (cancelledReservationsCount p) = (w1, n1)"
    by (cases "cancelReservations env sch (p_world p) (cancelledReservationsCount p)")
  then have m: "set (console (p_world p)) \<subseteq> set (console w1)"
    using cancelReservations_console_mono [of "p_world p" env sch "cancelledReservationsCount p"]
    by simp
  show ?case
  proof (cases "deleteDoc env w1 (s_id sch)")
    case (Inl e)
    let ?p' = "p\<lparr>p_world := console_error
                 (''Error deleting schedule '' @ s_id sch @ '': '' @ message_of e) None w1,
               cancelledReservationsCount := n1,
               errors := errors p @ [''Error deleting schedule '' @ s_id sch @ '': '' @ message_of e]\<rparr>"
    have "set (console w1) \<subseteq> set (console (p_world ?p'))"
      by (auto simp add: console_error_def)
    then show ?thesis
      using c Inl Cons.IH [of ?p'] m by (auto simp add: Let_def)
  next
    case (Inr w2)
    let ?p' = "p\<lparr>p_world := w2, deletedCount := Suc (deletedCount p),
                 cancelledReservationsCount := n1\<rparr>"
    have "console w2 = console w1"
      using Inr by (auto simp add: deleteDoc_Inr)
    then show ?thesis
      using c Inr Cons.IH [of ?p'] m by simp
  qed
qed


lemma cancelEach_fault:
  "\<exists>r\<in>set rs. r_status r = booked \<and> faults env (Helmet_cancel (r_id r)) \<noteq> None \<Longrightarrow>
     \<exists>e. fst (cancelEach env rs w n) = Some e"
proof (induction rs arbitrary: w n)
  case Nil
  then show ?case by simp
next
  case (Cons a rs)
  show ?case
  proof (cases "r_status a \<noteq> checked_in \<and> r_status a \<noteq> cancelled")
    case True
    show ?thesis
    proof (cases "cancel env w (r_id a)")
      case (Inl x)
      then show ?thesis using True by simp
    next
      case (Inr w1)
      then have "faults env (Helmet_cancel (r_id a)) = None"
        by (simp add: cancel_def attempt_Inr)
      then have "\<exists>r\<in>set rs. r_status r = booked \<and> faults env (Helmet_cancel (r_id r)) \<noteq> None"
        using Cons.prems by auto
      then show ?thesis
        using Cons.IH [of w1 "Suc n"] True Inr by simp
    qed
  next
    case False
    then have "r_status a \<noteq> booked" by (cases "r_status a") auto
    then have "\<exists>r\<in>set rs. r_status r = booked \<and> faults env (Helmet_cancel (r_id r)) \<noteq> None"
      using Cons.prems by auto
    then show ?thesis
      using Cons.IH [of w n] False by auto
  qed
qed

lemma cancelReservations_logs:
  assumes "faults env (Helmet_getByScheduleId (s_id sch)) = Some e \<or>
           faults env (Helmet_getByScheduleId (s_id sch)) = None \<and>
           r \<in> set (helmetReservations w) \<and> r_scheduleId r = s_id sch \<and>
           r_status r = booked \<and> faults env (Helmet_cancel (r_id r)) = Some e"
  shows "\<exists>e'. ConsoleError (''Error cancelling reservations for schedule '' @ s_id sch @ '':'')
                 (Some e') \<in> set (console (fst (cancelReservations env sch w n)))"
  using assms
proof (elim disjE conjE)
  assume "faults env (Helmet_getByScheduleId (s_id sch)) = Some e"
  then show ?thesis
    by (auto simp add: cancelReservations_def getByScheduleId_def attempt_def console_error_def)
next
  assume a: "faults env (Helmet_getByScheduleId (s_id sch)) = None"
    and b: "r \<in> set (helmetReservations w)" "r_scheduleId r = s_id sch" "r_status r = booked"
      "faults env (Helmet_cancel (r_id r)) = Some e"
  let ?rs = "filter (\<lambda>r. r_scheduleId r = s_id sch) (helmetReservations w)"
  have "\<exists>r\<in>set ?rs. r_status r = booked \<and> faults env (Helmet_cancel (r_id r)) \<noteq> None"
    using b by auto
  then obtain e' where "fst (cancelEach env ?rs w n) = Some e'"
    using cancelEach_fault by blast
  then show ?thesis
    using a
    by (auto simp add: cancelReservations_def getByScheduleId_def attempt_def console_error_def
        split: prod.splits)
qed

lemma deleteEach_logs:
  assumes "x \<in> set ss"
    and "faults env (Helmet_getByScheduleId (s_id x)) = Some e \<or>
         faults env (Helmet_getByScheduleId (s_id x)) = None \<and>
         r \<in> set (helmetReservations (p_world p)) \<and> r_scheduleId r = s_id x \<and>
         r_status r = booked \<and> faults env (Helmet_cancel (r_id r)) = Some e"
  shows "\<exists>e'. ConsoleError (''Error cancelling reservations for schedule '' @ s_id x @ '':'')
                 (Some e') \<in> set (console (p_world (deleteEach env ss p)))"
  using assms
proof (induction ss arbitrary: p)
  case Nil
  then show ?case by simp
next
  case (Cons sch rest)
  obtain w1 n1 where c: "cancelReservations env sch (p_world p) (cancelledReservationsCount p) = (w1, n1)"
    by (cases "cancelReservations env sch (p_world p) (cancelledReservationsCount p)")
  define p' where "p' =
    (case deleteDoc env w1 (s_id sch) of
       Inr w2 \<Rightarrow> p\<lparr>p_world := w2, deletedCount := Suc (deletedCount p),
                    cancelledReservationsCount := n1\<rparr>
     | Inl e \<Rightarrow> p\<lparr>p_world := console_error
                      (''Error deleting schedule '' @ s_id sch @ '': '' @ message_of e) None w1,
                    cancelledReservationsCount := n1,
                    errors := errors p @
                      [''Error deleting schedule '' @ s_id sch @ '': '' @ message_of e]\<rparr>)"
  have step: "deleteEach env (sch # rest) p = deleteEach env rest p'"
    using c by (simp add: p'_def Let_def split: sum.splits)
  have con: "set (console w1) \<subseteq> set (console (p_world p'))"
    by (auto simp add: p'_def console_error_def deleteDoc_Inr split: sum.splits)
  have res: "helmetReservations (p_world p') = helmetReservations w1"
    by (auto simp add: p'_def console_error_def deleteDoc_Inr split: sum.splits)
  show ?case
  proof (cases "x = sch")
    case True
    have "\<exists>e'. ConsoleError (''Error cancelling reservations for schedule '' @ s_id sch @ '':'')
                 (Some e') \<in> set (console w1)"
      using cancelReservations_logs [of env sch e r "p_world p" "cancelledReservationsCount p"]
        Cons.prems(2) True c by simp
    then show ?thesis
      unfolding step using con deleteEach_console_mono [of p' env rest] True by blast
  next
    case False
    then have x: "x \<in> set rest" using Cons.prems(1) by simp
    have "faults env (Helmet_getByScheduleId (s_id x)) = Some e \<or>
         faults env (Helmet_getByScheduleId (s_id x)) = None \<and>
         r \<in> set (helmetReservations (p_world p')) \<and> r_scheduleId r = s_id x \<and>
         r_status r = booked \<and> faults env (Helmet_cancel (r_id r)) = Some e"
      using Cons.prems(2) res c
        cancelReservations_keeps_stuck [of r "p_world p" env e sch "cancelledReservationsCount p"]
      by auto
    then show ?thesis
      unfolding step using Cons.IH [OF x] by blast
  qed
qed

lemmas bulk_defs = delete_schedules_POST_def matchSchedules_def getDocs_courseSchedules_def
  filterByCourseOrCoach_def course_getById_def course_getAll_def ownedBy_def
  getByScheduleId_def deleteDoc_def cancelReservations_def delete_summary_def delete_catch_def
  startBound_def endBound_def setHours_def timeClip_def msPerDay_def date_lt_def date_gt_def
  scheduleStartTime_def inDateRange_def console_error_def message_of_def

text \<open>
  C5. When the matched schedules are \<open>N\<close> schedules with distinct ids and the deletion
  call throws for exactly one of them, the loop still goes through all of them: the
  answer has status 200 and \<open>success = true\<close>, \<open>deletedCount\<close> is \<open>N - 1\<close>, the
  number of schedules whose deletion succeeded, \<open>errors\<close> holds the one line for the
  schedule that failed, and the stored schedules afterwards are those before without the
  \<open>N - 1\<close> others.
\<close>

theorem bulk_delete_partial_failure:
  fixes env courseId startDate endDate coachId w
  defines "R \<equiv> delete_schedules_POST env courseId startDate endDate coachId w"
  assumes "\<not> falsy coachId" and "truthy courseId \<or> truthy startDate \<or> truthy endDate"
    and "matchSchedules env courseId startDate endDate coachId w = (Inr (Inr ss), w0)"
    and "distinct (map s_id ss)"
    and "x \<in> set ss"
    and "faults env (DeleteDoc_courseSchedules (s_id x)) = Some e"
    and "\<forall>y\<in>set ss. y \<noteq> x \<longrightarrow> faults env (DeleteDoc_courseSchedules (s_id y)) = None"
  shows "fst (fst R) = 200
       \<and> field ''success'' (snd (fst R)) = Some (JBool True)
       \<and> field ''deletedCount'' (snd (fst R)) = Some (JNum (int (length ss - 1)))
       \<and> field ''errors'' (snd (fst R)) =
           Some (JArr [JStr (''Error deleting schedule '' @ s_id x @ '': '' @ message_of e)])
       \<and> courseSchedules (snd R) =
           filter (\<lambda>c. s_id c \<notin> s_id ` (set ss - {x})) (courseSchedules w0)"
proof -
  let ?p = "deleteEach env ss
        \<lparr>p_world = w0, deletedCount = 0, cancelledReservationsCount = 0, errors = []\<rparr>"
  have ne: "ss \<noteq> []" using assms(6) by auto
  have R: "R = (delete_summary ?p, p_world ?p)"
    unfolding R_def using assms(2,3,4) ne by (rule delete_schedules_POST_loop)
  note f = only_failure [OF assms(5-8)]
  have dc: "deletedCount ?p = length ss - 1"
    and er: "errors ?p = [''Error deleting schedule '' @ s_id x @ '': '' @ message_of e]"
    using deleteEach_counts [of env ss] f assms(7) by (simp_all add: deletion_error_def)
  have cs: "courseSchedules (p_world ?p) =
      filter (\<lambda>c. s_id c \<notin> s_id ` (set ss - {x})) (courseSchedules w0)"
    using deleteEach_schedules [of env ss] f(3) by simp
  show ?thesis
    unfolding R using dc er cs by (simp add: field_summary)
qed

theorem bulk_delete_partial_failure_witness:
  "field ''success'' (snd (fst (delete_schedules_POST
       (demo_env_failing (DeleteDoc_courseSchedules ''s1'') (Error ''permission denied''))
       (Some ''c1'') None None (Some ''coach1'') demo_world))) = Some (JBool True)
 \<and> field ''deletedCount'' (snd (fst (delete_schedules_POST
       (demo_env_failing (DeleteDoc_courseSchedules ''s1'') (Error ''permission denied''))
       (Some ''c1'') None None (Some ''coach1'') demo_world))) = Some (JNum 1)
 \<and> field ''errors'' (snd (fst (delete_schedules_POST
       (demo_env_failing (DeleteDoc_courseSchedules ''s1'') (Error ''permission denied''))
       (Some ''c1'') None None (Some ''coach1'') demo_world))) =
     Some (JArr [JStr ''Error deleting schedule s1: permission denied''])
 \<and> courseSchedules (snd (delete_schedules_POST
       (demo_env_failing (DeleteDoc_courseSchedules ''s1'') (Error ''permission denied''))
       (Some ''c1'') None None (Some ''coach1'') demo_world)) = [demo_s1, demo_s3]"
proof -
  let ?env = "demo_env_failing (DeleteDoc_courseSchedules ''s1'') (Error ''permission denied'')"
  have h: "\<not> falsy (Some ''coach1'')" "truthy (Some ''c1'') \<or> truthy None \<or> truthy None"
    "matchSchedules ?env (Some ''c1'') None None (Some ''coach1'') demo_world =
       (Inr (Inr [demo_s1, demo_s2]), demo_world)"
    "distinct (map s_id [demo_s1, demo_s2])"
    "demo_s1 \<in> set [demo_s1, demo_s2]"
    "faults ?env (DeleteDoc_courseSchedules (s_id demo_s1)) = Some (Error ''permission denied'')"
    "\<forall>y\<in>set [demo_s1, demo_s2]. y \<noteq> demo_s1 \<longrightarrow>
       faults ?env (DeleteDoc_courseSchedules (s_id y)) = None"
    by (simp_all add: bulk_defs svc_defs demo_defs)
  have s: "filter (\<lambda>c. s_id c \<notin> s_id ` (set [demo_s1, demo_s2] - {demo_s1}))
             (courseSchedules demo_world) = [demo_s1, demo_s3]"
    by (simp add: demo_defs)
  show ?thesis
    using bulk_delete_partial_failure [OF h] s
    by (simp add: demo_s1_def message_of_def)
qed

text \<open>
  C10. When, for a matched schedule whose deletion call does not throw, the lookup of its
  reservations throws, or the lookup answers and cancelling one of its booked
  reservations throws, the schedule is still deleted and counted in \<open>deletedCount\<close>;
  the failure is printed on the console under
  \<open>Error cancelling reservations for schedule\<close>; and \<open>errors\<close> holds exactly the
  lines of the schedules whose deletion call threw, so it is absent when there is none.
\<close>

theorem reservation_failure_only_logged:
  fixes env courseId startDate endDate coachId w
  defines "R \<equiv> delete_schedules_POST env courseId startDate endDate coachId w"
  assumes "\<not> falsy coachId" and "truthy courseId \<or> truthy startDate \<or> truthy endDate"
    and "matchSchedules env courseId startDate endDate coachId w = (Inr (Inr ss), w0)"
    and "x \<in> set ss"
    and "faults env (DeleteDoc_courseSchedules (s_id x)) = None"
    and "faults env (Helmet_getByScheduleId (s_id x)) = Some e \<or>
         faults env (Helmet_getByScheduleId (s_id x)) = None \<and>
         r \<in> set (helmetReservations w0) \<and> r_scheduleId r = s_id x \<and>
         r_status r = booked \<and> faults env (Helmet_cancel (r_id r)) = Some e"
  shows "field ''success'' (snd (fst R)) = Some (JBool True)
       \<and> field ''deletedCount'' (snd (fst R)) =
           Some (JNum (int (length (filter (deletable env) ss))))
       \<and> x \<in> set (filter (deletable env) ss)
       \<and> s_id x \<notin> s_id ` set (courseSchedules (snd R))
       \<and> field ''errors'' (snd (fst R)) =
           (if filter (\<lambda>s. \<not> deletable env s) ss = [] then None
            else Some (JArr (map JStr
                   (map (deletion_error env) (filter (\<lambda>s. \<not> deletable env s) ss)))))
       \<and> (\<exists>e'. ConsoleError (''Error cancelling reservations for schedule '' @ s_id x @ '':'')
                   (Some e') \<in> set (console (snd R)))"
proof -
  let ?init = "\<lparr>p_world = w0, deletedCount = 0, cancelledReservationsCount = 0, errors = []\<rparr>"
  let ?p = "deleteEach env ss ?init"
  have ne: "ss \<noteq> []" using assms(5) by auto
  have R: "R = (delete_summary ?p, p_world ?p)"
    unfolding R_def using assms(2,3,4) ne by (rule delete_schedules_POST_loop)
  have dx: "x \<in> set (filter (deletable env) ss)"
    using assms(5,6) by (simp add: deletable_def)
  have dc: "deletedCount ?p = length (filter (deletable env) ss)"
    and er: "errors ?p = map (deletion_error env) (filter (\<lambda>s. \<not> deletable env s) ss)"
    using deleteEach_counts [of env ss ?init] by simp_all
  have "s_id x \<in> s_id ` set (filter (deletable env) ss)"
    using dx by (rule imageI)
  then have cs: "s_id x \<notin> s_id ` set (courseSchedules (p_world ?p))"
    unfolding deleteEach_schedules [of env ss ?init] by auto
  have lg: "\<exists>e'. ConsoleError (''Error cancelling reservations for schedule '' @ s_id x @ '':'')
                   (Some e') \<in> set (console (p_world ?p))"
    using deleteEach_logs [of x ss env e r ?init] assms(5,7) by simp
  show ?thesis
    unfolding R using dx dc er cs lg by (simp add: field_summary)
qed

theorem reservation_failure_only_logged_witness:
  "field ''deletedCount'' (snd (fst (delete_schedules_POST
       (demo_env_failing (Helmet_getByScheduleId ''s1'') (Error ''unavailable''))
       (Some ''c1'') None None (Some ''coach1'') demo_world))) = Some (JNum 2)
 \<and> field ''errors'' (snd (fst (delete_schedules_POST
       (demo_env_failing (Helmet_getByScheduleId ''s1'') (Error ''unavailable''))
       (Some ''c1'') None None (Some ''coach1'') demo_world))) = None
 \<and> ''s1'' \<notin> s_id ` set (courseSchedules (snd (delete_schedules_POST
       (demo_env_failing (Helmet_getByScheduleId ''s1'') (Error ''unavailable''))
       (Some ''c1'') None None (Some ''coach1'') demo_world)))
 \<and> (\<exists>e'. ConsoleError ''Error cancelling reservations for schedule s1:'' (Some e')
       \<in> set (console (snd (delete_schedules_POST
       (demo_env_failing (Helmet_getByScheduleId ''s1'') (Error ''unavailable''))
       (Some ''c1'') None None (Some ''coach1'') demo_world))))"
proof -
  let ?env = "demo_env_failing (Helmet_getByScheduleId ''s1'') (Error ''unavailable'')"
  have h: "\<not> falsy (Some ''coach1'')" "truthy (Some ''c1'') \<or> truthy None \<or> truthy None"
    "matchSchedules ?env (Some ''c1'') None None (Some ''coach1'') demo_world =
       (Inr (Inr [demo_s1, demo_s2]), demo_world)"
    "demo_s1 \<in> set [demo_s1, demo_s2]"
    "faults ?env (DeleteDoc_courseSchedules (s_id demo_s1)) = None"
    "faults ?env (Helmet_getByScheduleId (s_id demo_s1)) = Some (Error ''unavailable'') \<or>
     faults ?env (Helmet_getByScheduleId (s_id demo_s1)) = None \<and>
     demo_reservation ''r1'' ''u1'' ''Ada Diop'' booked None \<in> set (helmetReservations demo_world) \<and>
     r_scheduleId (demo_reservation ''r1'' ''u1'' ''Ada Diop'' booked None) = s_id demo_s1 \<and>
     r_status (demo_reservation ''r1'' ''u1'' ''Ada Diop'' booked None) = booked \<and>
     faults ?env (Helmet_cancel (r_id (demo_reservation ''r1'' ''u1'' ''Ada Diop'' booked None))) =
       Some (Error ''unavailable'')"
    by (simp_all add: bulk_defs svc_defs demo_defs)
  have d: "filter (deletable ?env) [demo_s1, demo_s2] = [demo_s1, demo_s2]"
    "filter (\<lambda>s. \<not> deletable ?env s) [demo_s1, demo_s2] = []"
    by (simp_all add: deletable_def demo_defs)
  show ?thesis
    using reservation_failure_only_logged [OF h] d
    by (simp add: demo_s1_def)
qed

text \<open>
  The date filter of step 3. For a start time that is a valid instant, a schedule is kept
  exactly when the instant lies within the bounds given, inclusively; a missing start
  time drops the schedule; a \<open>toDate\<close> that throws drops it and prints the exception;
  and, within the range of \<open>Date\<close> and where the local time zone adjustment is the same
  at every instant, the two bounds of a day are its local 00:00:00.000 and 23:59:59.999.
\<close>

lemma inDateRange_valid_instant:
  assumes "scheduleStartTime env (s_startTime sch) = Inr (Some (Some t))"
  shows "inDateRange env (Some (Some a)) (Some (Some b)) sch = Inr (a \<le> t \<and> t \<le> b)"
    and "inDateRange env (Some (Some a)) None sch = Inr (a \<le> t)"
    and "inDateRange env None (Some (Some b)) sch = Inr (t \<le> b)"
  using assms by (auto simp add: inDateRange_def date_lt_def date_gt_def)

lemma inDateRange_absent:
  "s_startTime sch = Missing \<Longrightarrow> inDateRange env start end' sch = Inr False"
  by (simp add: inDateRange_def scheduleStartTime_def)

lemma filterByDate_toDate_throws:
  "s_startTime sch = WithToDate (Inl e) \<Longrightarrow>
     filterByDate env start end' [sch] w =
       ([], console_error (''Error parsing schedule '' @ s_id sch @ '' startTime:'') (Some e) w)"
  by (simp add: inDateRange_def scheduleStartTime_def)

lemma setHours_day_bounds:
  assumes "\<bar>t\<bar> \<le> 8640000000000000 - 2 * msPerDay" and "\<bar>z\<bar> \<le> msPerDay"
    and "\<And>isUTC x. localTZA env isUTC x = z"
  shows "\<exists>t0. setHours env 0 0 0 0 (Some t) = Some t0
            \<and> setHours env 23 59 59 999 (Some t) = Some (t0 + msPerDay - 1)
            \<and> (t0 + z) mod msPerDay = 0 \<and> t0 \<le> t \<and> t < t0 + msPerDay"
proof -
  let ?t0 = "((t + z) div msPerDay) * msPerDay - z"
  have m: "msPerDay = 86400000" by (simp add: msPerDay_def)
  have a: "(t + z) div msPerDay * msPerDay \<le> t + z"
    and b: "t + z < (t + z) div msPerDay * msPerDay + msPerDay"
    unfolding m by (simp_all add: div_mult_self_is_m pos_mod_bound pos_mod_sign
        minus_mod_eq_div_mult [symmetric])
  have le: "?t0 \<le> t" and lt: "t < ?t0 + msPerDay"
    using a b by simp_all
  have r1: "\<bar>?t0\<bar> \<le> 8640000000000000" and r2: "\<bar>?t0 + msPerDay - 1\<bar> \<le> 8640000000000000"
    using le lt assms(1,2) unfolding m by linarith+
  have md: "(?t0 + z) mod msPerDay = 0" by simp
  have s: "setHours env 0 0 0 0 (Some t) = Some ?t0"
    using r1 by (simp add: setHours_def timeClip_def assms(3) Let_def)
  have e: "setHours env 23 59 59 999 (Some t) = Some (?t0 + msPerDay - 1)"
    using r2 unfolding m by (simp add: setHours_def timeClip_def assms(3) Let_def m)
  show ?thesis
    using s e md le lt by (intro exI [of _ ?t0] conjI)
qed

lemma demo_date_bounds:
  "startBound demo_env (Some ''2024-03-10'') = Some (Some 1710025200000)"
  "endBound demo_env (Some ''2024-03-10'') = Some (Some 1710111599999)"
  by (simp_all add: startBound_def endBound_def setHours_def timeClip_def msPerDay_def
        truthy_def str_def demo_env_def demo_env_failing_def)

lemma demo_s2_kept:
  "scheduleStartTime demo_env (s_startTime demo_s2) = Inr (Some None)"
  "inDateRange demo_env (Some (Some 1710025200000)) (Some (Some 1710111599999)) demo_s2 = Inr True"
  "inDateRange demo_env (Some (Some 1710025200000)) (Some (Some 1710111599999)) demo_s1 = Inr True"
  by (simp_all add: inDateRange_def scheduleStartTime_def date_lt_def date_gt_def
        demo_s1_def demo_s2_def demo_env_def demo_env_failing_def)

lemma demo_date_match:
  "matchSchedules demo_env None (Some ''2024-03-10'') (Some ''2024-03-10'') (Some ''coach1'')
      demo_world = (Inr (Inr [demo_s1, demo_s2]), demo_world)"
proof -
  have f: "filterByCourseOrCoach demo_env demo_world None (Some ''coach1'')
             (courseSchedules demo_world) = Inr (Inr [demo_s1, demo_s2])"
    by (simp add: filterByCourseOrCoach_def course_getAll_def ownedBy_def attempt_def
          truthy_def str_def demo_defs)
  have g: "getDocs_courseSchedules demo_env demo_world = Inr (courseSchedules demo_world)"
    by (simp add: getDocs_courseSchedules_def attempt_def demo_env_def demo_env_failing_def)
  show ?thesis
    unfolding matchSchedules_def g
    by (simp add: f demo_date_bounds demo_s2_kept truthy_def)
qed

text \<open>
  C9 at a start time that cannot be parsed. In the example world the second schedule of
  the first coach has the start time \<open>to be announced\<close>, a string that \<open>Date.parse\<close>
  maps to NaN. \<open>new Date\<close> of it does not throw, so the \<open>catch\<close> of the filter is not
  reached, and both comparisons with the bounds are false: for the day 2024-03-10 the
  filter keeps the schedule, and the handler deletes it together with the one that is in
  range.
\<close>

theorem date_filter_keeps_invalid_date:
  "scheduleStartTime demo_env (s_startTime demo_s2) = Inr (Some None)
 \<and> startBound demo_env (Some ''2024-03-10'') = Some (Some 1710025200000)
 \<and> endBound demo_env (Some ''2024-03-10'') = Some (Some 1710111599999)
 \<and> inDateRange demo_env (startBound demo_env (Some ''2024-03-10''))
      (endBound demo_env (Some ''2024-03-10'')) demo_s2 = Inr True
 \<and> matchSchedules demo_env None (Some ''2024-03-10'') (Some ''2024-03-10'') (Some ''coach1'')
      demo_world = (Inr (Inr [demo_s1, demo_s2]), demo_world)
 \<and> field ''deletedCount'' (snd (fst (delete_schedules_POST demo_env None (Some ''2024-03-10'')
      (Some ''2024-03-10'') (Some ''coach1'') demo_world))) = Some (JNum 2)
 \<and> courseSchedules (snd (delete_schedules_POST demo_env None (Some ''2024-03-10'')
      (Some ''2024-03-10'') (Some ''coach1'') demo_world)) = [demo_s3]"
proof -
  let ?init = "\<lparr>p_world = demo_world, deletedCount = 0, cancelledReservationsCount = 0,
                 errors = []\<rparr>"
  let ?p = "deleteEach demo_env [demo_s1, demo_s2] ?init"
  have h: "\<not> falsy (Some ''coach1'')"
    "truthy None \<or> truthy (Some ''2024-03-10'') \<or> truthy (Some ''2024-03-10'')"
    "[demo_s1, demo_s2] \<noteq> []"
    by (simp_all add: falsy_def truthy_def)
  have R: "delete_schedules_POST demo_env None (Some ''2024-03-10'') (Some ''2024-03-10'')
             (Some ''coach1'') demo_world = (delete_summary ?p, p_world ?p)"
    using h(1,2) demo_date_match h(3) by (rule delete_schedules_POST_loop)
  have d: "filter (deletable demo_env) [demo_s1, demo_s2] = [demo_s1, demo_s2]"
    by (simp add: deletable_def demo_env_def demo_env_failing_def)
  have dc: "deletedCount ?p = 2"
    using deleteEach_counts [of demo_env "[demo_s1, demo_s2]" ?init] d by simp
  have cs: "courseSchedules (p_world ?p) = [demo_s3]"
    unfolding deleteEach_schedules [of demo_env "[demo_s1, demo_s2]" ?init] d
    by (simp add: demo_world_def demo_s1_def demo_s2_def demo_s3_def)
  show ?thesis
    unfolding R using dc cs by (simp add: demo_date_bounds demo_s2_kept demo_date_match field_summary)
qed

end
